theory Spec2Isabelle
  imports Main
begin

section \<open>The audible-tab cache of the background page\<close>

text \<open>
  The repository holds two generations of the background script. The file
  \<^verbatim>\<open>background.js\<close> keeps a tab only while it is audible; the later script (the one
  with \<^verbatim>\<open>TAB_RETENTION_MS\<close>, \<^verbatim>\<open>cleanupOldTabs\<close> and the popup ports) retains a
  silent tab for thirty minutes. Both are embedded: the definitions of the later script
  carry the source's names, those of \<^verbatim>\<open>background.js\<close> carry the suffix \<open>_bg\<close>.
\<close>

subsection \<open>JavaScript values the cache code relies on\<close>

text \<open>
  A JavaScript \<^verbatim>\<open>Map\<close> iterates in insertion order, \<^verbatim>\<open>set\<close> on a present key
  replaces the value in place and on an absent key appends, \<^verbatim>\<open>delete\<close> removes the
  entry. It is modelled as an association list, so that the order of
  \<^verbatim>\<open>Array.from(map.values())\<close> is part of the model and "one entry per key" is a
  property to be proved, not a property of the type.
\<close>

type_synonym ('k, 'v) jsmap = "('k \<times> 'v) list"

fun Map_has :: "'k \<Rightarrow> ('k, 'v) jsmap \<Rightarrow> bool" where
  "Map_has k [] = False"
| "Map_has k (p # ps) = (if fst p = k then True else Map_has k ps)"

fun Map_get :: "'k \<Rightarrow> ('k, 'v) jsmap \<Rightarrow> 'v option" where
  "Map_get k [] = None"
| "Map_get k (p # ps) = (if fst p = k then Some (snd p) else Map_get k ps)"

fun Map_set :: "'k \<Rightarrow> 'v \<Rightarrow> ('k, 'v) jsmap \<Rightarrow> ('k, 'v) jsmap" where
  "Map_set k v [] = [(k, v)]"
| "Map_set k v (p # ps) = (if fst p = k then (k, v) # ps else p # Map_set k v ps)"

fun Map_delete :: "'k \<Rightarrow> ('k, 'v) jsmap \<Rightarrow> ('k, 'v) jsmap" where
  "Map_delete k [] = []"
| "Map_delete k (p # ps) = (if fst p = k then Map_delete k ps else p # Map_delete k ps)"

definition Map_values :: "('k, 'v) jsmap \<Rightarrow> 'v list" where
  "Map_values m = map snd m"

text \<open>
  \<^verbatim>\<open>upsertFromTab\<close> returns one of the strings \<^verbatim>\<open>'added'\<close>, \<^verbatim>\<open>'updated'\<close>,
  \<^verbatim>\<open>'removed'\<close>, or the boolean \<^verbatim>\<open>false\<close>; the callers test the value for
  truthiness.
\<close>

datatype js_ret = JFalse | JStr string

definition truthy :: "js_ret \<Rightarrow> bool" where
  "truthy r = (case r of JFalse \<Rightarrow> False | JStr s \<Rightarrow> s \<noteq> [])"

text \<open>
  \<^verbatim>\<open>a || b\<close> on an optional string: \<^verbatim>\<open>undefined\<close> and the empty string are falsy.
\<close>

definition strOr :: "string option \<Rightarrow> string \<Rightarrow> string" where
  "strOr a b = (case a of None \<Rightarrow> b | Some s \<Rightarrow> if s = [] then b else s)"

text \<open>The decimal rendering of a tab id inside the template \<^verbatim>\<open>`Tab ${tab.id}`\<close>.\<close>

fun digitsOf :: "nat \<Rightarrow> string" where
  "digitsOf n =
     (if n < 10 then [''0123456789'' ! n]
      else digitsOf (n div 10) @ [''0123456789'' ! (n mod 10)])"

declare digitsOf.simps [simp del]

definition numberToString :: "int \<Rightarrow> string" where
  "numberToString i = (if i < 0 then CHR ''-'' # digitsOf (nat (- i)) else digitsOf (nat i))"

subsection \<open>Data\<close>

text \<open>
  The host's tab snapshot (\<^verbatim>\<open>tabs.Tab\<close>). \<open>tab_id\<close> is \<open>None\<close> when the host gives
  \<^verbatim>\<open>null\<close> or \<^verbatim>\<open>undefined\<close>; \<open>tab_title\<close> and \<open>tab_url\<close> may be absent;
  \<open>tab_mutedInfo\<close> is \<open>Some b\<close> when \<^verbatim>\<open>tab.mutedInfo\<close> is an object whose
  \<^verbatim>\<open>muted\<close> is \<open>b\<close>. An absent \<^verbatim>\<open>audible\<close> is falsy and is read as \<open>False\<close>.
\<close>

record tab =
  tab_id :: "int option"
  tab_title :: "string option"
  tab_url :: "string option"
  tab_audible :: bool
  tab_mutedInfo :: "bool option"

text \<open>
  A cache entry of the retaining script; \<open>lastActive\<close> is in milliseconds. A field is
  \<open>None\<close> when the object has no such property: the \<^verbatim>\<open>skip_track\<close> command can
  store an object that has a title and a url only.
\<close>

record entry =
  id_e :: "int option"
  title :: "string option"
  url :: "string option"
  audible :: "bool option"
  muted :: "bool option"
  lastActive :: "int option"

text \<open>The truthiness of an optional boolean property.\<close>

definition jsTrue :: "bool option \<Rightarrow> bool" where
  "jsTrue b = (b = Some True)"

text \<open>A cache entry of \<^verbatim>\<open>background.js\<close>, which has no \<^verbatim>\<open>lastActive\<close>.\<close>

record entry_bg =
  bg_id :: int
  bg_title :: string
  bg_url :: string
  bg_audible :: bool
  bg_muted :: bool

definition TAB_RETENTION_MS :: int where
  "TAB_RETENTION_MS = 30 * 60 * 1000"

subsection \<open>upsertFromTab\<close>

text \<open>
  The argument is \<open>None\<close> for a \<^verbatim>\<open>null\<close> or \<^verbatim>\<open>undefined\<close> tab. \<open>now\<close> is the value
  of \<^verbatim>\<open>Date.now()\<close> read at the start of the call. The function returns the value the
  source returns and the map after the call.
  \<^verbatim>\<open>existingTab.lastActive || now\<close> keeps a non-zero \<^verbatim>\<open>lastActive\<close> and replaces a
  zero or missing one by \<open>now\<close>.
\<close>

definition upsertFromTab ::
  "int \<Rightarrow> tab option \<Rightarrow> (int, entry) jsmap \<Rightarrow> js_ret \<times> (int, entry) jsmap" where
  "upsertFromTab now tabArg m =
     (case tabArg of
        None \<Rightarrow> (JFalse, m)
      | Some t \<Rightarrow>
         (case tab_id t of
            None \<Rightarrow> (JFalse, m)
          | Some i \<Rightarrow>
             (let was = Map_has i m in
              if tab_audible t then
                (if was then JStr ''updated'' else JStr ''added'',
                 Map_set i
                   \<lparr> id_e = Some i,
                     title =
                       Some (strOr (tab_title t) (strOr (tab_url t) (''Tab '' @ numberToString i))),
                     url = Some (strOr (tab_url t) []),
                     audible = Some True,
                     muted = Some (case tab_mutedInfo t of None \<Rightarrow> False | Some b \<Rightarrow> b),
                     lastActive = Some now \<rparr> m)
              else if was then
                (case Map_get i m of
                   Some existingTab \<Rightarrow>
                     (JStr ''updated'',
                      Map_set i
                        (existingTab
                           \<lparr> audible := Some False,
                             lastActive :=
                               Some (case lastActive existingTab of
                                       None \<Rightarrow> now
                                     | Some l \<Rightarrow> if l = 0 then now else l) \<rparr>) m)
                 | None \<Rightarrow> (JStr ''updated'', m))
              else (JFalse, m))))"

definition upsertFromTab_bg ::
  "tab option \<Rightarrow> (int, entry_bg) jsmap \<Rightarrow> js_ret \<times> (int, entry_bg) jsmap" where
  "upsertFromTab_bg tabArg m =
     (case tabArg of
        None \<Rightarrow> (JFalse, m)
      | Some t \<Rightarrow>
         (case tab_id t of
            None \<Rightarrow> (JFalse, m)
          | Some i \<Rightarrow>
             (let was = Map_has i m in
              if tab_audible t then
                (if was then JStr ''updated'' else JStr ''added'',
                 Map_set i
                   \<lparr> bg_id = i,
                     bg_title = strOr (tab_title t) (strOr (tab_url t) (''Tab '' @ numberToString i)),
                     bg_url = strOr (tab_url t) [],
                     bg_audible = True,
                     bg_muted = (case tab_mutedInfo t of None \<Rightarrow> False | Some b \<Rightarrow> b) \<rparr> m)
              else if was then (JStr ''removed'', Map_delete i m)
              else (JFalse, m))))"

text \<open>
  A sequence of calls, each with the clock value it reads, applied in order to a cache.
\<close>

fun upsertAll :: "(int \<times> tab option) list \<Rightarrow> (int, entry) jsmap \<Rightarrow> (int, entry) jsmap" where
  "upsertAll [] m = m"
| "upsertAll (c # cs) m = upsertAll cs (snd (upsertFromTab (fst c) (snd c) m))"

fun upsertAll_bg :: "tab option list \<Rightarrow> (int, entry_bg) jsmap \<Rightarrow> (int, entry_bg) jsmap" where
  "upsertAll_bg [] m = m"
| "upsertAll_bg (c # cs) m = upsertAll_bg cs (snd (upsertFromTab_bg c m))"

subsection \<open>Eviction and the snapshot\<close>

text \<open>
  \<^verbatim>\<open>cleanupOldTabs\<close> reads the clock once and walks the entries of the map, deleting
  from the map while it walks; deleting the entry under the iterator does not disturb
  the iteration of a JavaScript \<^verbatim>\<open>Map\<close>. The loop runs over the entries present at
  its start and threads the map. A missing \<^verbatim>\<open>lastActive\<close> makes the difference
  \<^verbatim>\<open>NaN\<close>, and the comparison false.
\<close>

fun cleanupLoop :: "int \<Rightarrow> (int \<times> entry) list \<Rightarrow> (int, entry) jsmap \<Rightarrow> (int, entry) jsmap" where
  "cleanupLoop now [] m = m"
| "cleanupLoop now (p # ps) m =
     (if \<not> jsTrue (audible (snd p)) \<and>
         (case lastActive (snd p) of None \<Rightarrow> False | Some l \<Rightarrow> now - l \<ge> TAB_RETENTION_MS)
      then cleanupLoop now ps (Map_delete (fst p) m)
      else cleanupLoop now ps m)"

definition cleanupOldTabs :: "int \<Rightarrow> (int, entry) jsmap \<Rightarrow> (int, entry) jsmap" where
  "cleanupOldTabs now m = cleanupLoop now m m"

text \<open>
  The clock as one call of \<^verbatim>\<open>getAudibleTabs\<close> reads it: once inside
  \<^verbatim>\<open>cleanupOldTabs\<close>, and then once more each time the callback of \<^verbatim>\<open>filter\<close>
  runs; \<open>filterNow k\<close> is the reading taken while the callback tests the element at
  index \<open>k\<close> of the array.
\<close>

record clock =
  cleanupNow :: int
  filterNow :: "nat \<Rightarrow> int"

text \<open>The callback of \<^verbatim>\<open>filter\<close>, with the reading it takes.\<close>

definition filterCallback :: "int \<Rightarrow> entry \<Rightarrow> bool" where
  "filterCallback now tab =
     (jsTrue (audible tab) \<or>
      (case lastActive tab of None \<Rightarrow> False | Some l \<Rightarrow> now - l < TAB_RETENTION_MS))"

text \<open>
  \<^verbatim>\<open>getAudibleTabs\<close> returns the list handed to the caller and the map after the
  eviction.
\<close>

definition getAudibleTabs :: "clock \<Rightarrow> (int, entry) jsmap \<Rightarrow> entry list \<times> (int, entry) jsmap" where
  "getAudibleTabs clk m =
     (let m' = cleanupOldTabs (cleanupNow clk) m in
      (map snd
         (filter (\<lambda>p. filterCallback (filterNow clk (fst p)) (snd p))
            (enumerate 0 (Map_values m'))),
       m'))"

definition getAudibleTabs_bg :: "(int, entry_bg) jsmap \<Rightarrow> entry_bg list" where
  "getAudibleTabs_bg m = Map_values m"


subsection \<open>Popup ports\<close>

text \<open>
  A port is an object of the host; two ports are the same when they are the same object,
  which the model renders by \<open>port_id\<close>. \<^verbatim>\<open>popupPorts\<close> is a JavaScript
  \<^verbatim>\<open>Set\<close>: insertion ordered, without duplicates.
\<close>

record port =
  port_id :: nat
  port_name :: string

definition Set_add :: "'a \<Rightarrow> 'a list \<Rightarrow> 'a list" where
  "Set_add x xs = (if x \<in> set xs then xs else xs @ [x])"

definition Set_delete :: "'a \<Rightarrow> 'a list \<Rightarrow> 'a list" where
  "Set_delete x xs = filter (\<lambda>y. y \<noteq> x) xs"

text \<open>
  A tab as it travels in a message: the cache entry, and \<^verbatim>\<open>isPlaying\<close> where the
  sender adds it (\<^verbatim>\<open>{...tab, isPlaying: tab.audible}\<close>).
\<close>

record pushed_tab =
  sent_entry :: entry
  isPlaying :: "bool option"

datatype message = Update_media_tabs "pushed_tab list"

text \<open>
  One call of \<^verbatim>\<open>port.postMessage\<close>: the port, the message, and whether the call
  threw.
\<close>

record post =
  post_port :: port
  post_message :: message
  post_threw :: bool

record bg_state =
  audibleTabsMap :: "(int, entry) jsmap"
  popupPorts :: "port list"

text \<open>
  The listener of \<^verbatim>\<open>runtime.onConnect\<close>: a port named \<^verbatim>\<open>popup\<close> is registered and
  is sent the values of the map as they are. The port has just connected, so this
  \<^verbatim>\<open>postMessage\<close> (which the source does not guard) returns.
\<close>

definition onConnect :: "port \<Rightarrow> bg_state \<Rightarrow> bg_state \<times> post list" where
  "onConnect p st =
     (if port_name p = ''popup'' then
        (st \<lparr> popupPorts := Set_add p (popupPorts st) \<rparr>,
         [\<lparr> post_port = p,
            post_message =
              Update_media_tabs
                (map (\<lambda>t. \<lparr> sent_entry = t, isPlaying = None \<rparr>)
                   (Map_values (audibleTabsMap st))),
            post_threw = False \<rparr>])
      else (st, []))"

definition onDisconnect :: "port \<Rightarrow> bg_state \<Rightarrow> bg_state" where
  "onDisconnect p st = st \<lparr> popupPorts := Set_delete p (popupPorts st) \<rparr>"

text \<open>
  The loop of \<^verbatim>\<open>pushUpdateToPopup\<close>. \<open>throws p\<close> tells whether
  \<^verbatim>\<open>p.postMessage\<close> throws. The iteration runs over the ports registered when the
  loop starts; a port deleted in the \<^verbatim>\<open>catch\<close> is the one under the iterator, so the
  ports after it are still visited.
\<close>

fun pushLoop :: "(port \<Rightarrow> bool) \<Rightarrow> message \<Rightarrow> port list \<Rightarrow> port list \<Rightarrow> port list \<times> post list" where
  "pushLoop throws msg [] registered = (registered, [])"
| "pushLoop throws msg (p # ps) registered =
     (if throws p then
        (let (registered', posts) = pushLoop throws msg ps (Set_delete p registered)
         in (registered', \<lparr> post_port = p, post_message = msg, post_threw = True \<rparr> # posts))
      else
        (let (registered', posts) = pushLoop throws msg ps registered
         in (registered', \<lparr> post_port = p, post_message = msg, post_threw = False \<rparr> # posts)))"

definition pushUpdateToPopup :: "(port \<Rightarrow> bool) \<Rightarrow> bg_state \<Rightarrow> bg_state \<times> post list" where
  "pushUpdateToPopup throws st =
     (if popupPorts st = [] then (st, [])
      else
        (let tabs = map (\<lambda>t. \<lparr> sent_entry = t, isPlaying = audible t \<rparr>)
                      (Map_values (audibleTabsMap st));
             (registered', posts) =
               pushLoop throws (Update_media_tabs tabs) (popupPorts st) (popupPorts st)
         in (st \<lparr> popupPorts := registered' \<rparr>, posts)))"

subsection \<open>The handlers of the background page\<close>

text \<open>
  Every listener and continuation of the retaining script that touches the cache or the
  ports. Each takes the readings of the clock that it takes in the source, and returns
  the state it leaves and the posts it makes.

  \<^verbatim>\<open>updateIconForMediaTabs\<close> calls \<^verbatim>\<open>getAudibleTabs\<close> for the count before any
  suspension; what it leaves in the state is the eviction. The icon itself is not
  modelled. It is also the listener of \<^verbatim>\<open>windows.onCreated\<close>.
\<close>

definition updateIconForMediaTabs :: "clock \<Rightarrow> bg_state \<Rightarrow> bg_state" where
  "updateIconForMediaTabs clk st =
     st \<lparr> audibleTabsMap := snd (getAudibleTabs clk (audibleTabsMap st)) \<rparr>"

text \<open>The callback of \<^verbatim>\<open>setInterval(cleanupOldTabs, ...)\<close>.\<close>

definition onCleanupTimer :: "int \<Rightarrow> bg_state \<Rightarrow> bg_state \<times> post list" where
  "onCleanupTimer now st =
     (st \<lparr> audibleTabsMap := cleanupOldTabs now (audibleTabsMap st) \<rparr>, [])"

text \<open>
  The listener of \<^verbatim>\<open>runtime.onStartup\<close> and the function \<^verbatim>\<open>init\<close>, once the host
  has answered the query with its tabs: each is upserted, with the clock reading of its
  call, and the icon is updated.
\<close>

definition onStartup :: "(int \<times> tab) list \<Rightarrow> clock \<Rightarrow> bg_state \<Rightarrow> bg_state \<times> post list" where
  "onStartup tabs clk st =
     (updateIconForMediaTabs clk
        (st \<lparr> audibleTabsMap :=
                upsertAll (map (\<lambda>c. (fst c, Some (snd c))) tabs) (audibleTabsMap st) \<rparr>),
      [])"

definition onCreated :: "int \<Rightarrow> clock \<Rightarrow> (port \<Rightarrow> bool) \<Rightarrow> tab \<Rightarrow> bg_state \<Rightarrow> bg_state \<times> post list" where
  "onCreated now clk throws t st =
     (let (changed, m) = upsertFromTab now (Some t) (audibleTabsMap st);
          st1 = st \<lparr> audibleTabsMap := m \<rparr>
      in if truthy changed then pushUpdateToPopup throws (updateIconForMediaTabs clk st1)
         else (st1, []))"

text \<open>
  \<^verbatim>\<open>changeInfo\<close> of \<^verbatim>\<open>tabs.onUpdated\<close>: which of the four properties it defines.
\<close>

record changeInfo =
  has_audible :: bool
  has_title :: bool
  has_url :: bool
  has_mutedInfo :: bool

text \<open>\<^verbatim>\<open>a || b\<close> where \<open>b\<close> may be missing too.\<close>

definition optOr :: "string option \<Rightarrow> string option \<Rightarrow> string option" where
  "optOr a b = (case a of None \<Rightarrow> b | Some s \<Rightarrow> if s = [] then b else Some s)"

text \<open>
  The metadata branch of \<^verbatim>\<open>tabs.onUpdated\<close> on the entry. The two
  \<^verbatim>\<open>JSON.stringify\<close> texts differ exactly when the entry has changed.
\<close>

definition reflectMetadata :: "changeInfo \<Rightarrow> tab \<Rightarrow> entry \<Rightarrow> entry" where
  "reflectMetadata ci t e =
     (let e1 = (if has_title ci then e \<lparr> title := optOr (tab_title t) (title e) \<rparr> else e);
          e2 = (if has_url ci then e1 \<lparr> url := optOr (tab_url t) (url e1) \<rparr> else e1)
      in if has_mutedInfo ci then
           e2 \<lparr> muted := Some (case tab_mutedInfo t of None \<Rightarrow> False | Some b \<Rightarrow> b) \<rparr>
         else e2)"

definition onUpdated ::
  "int \<Rightarrow> clock \<Rightarrow> (port \<Rightarrow> bool) \<Rightarrow> int \<Rightarrow> changeInfo \<Rightarrow> tab \<Rightarrow> bg_state \<Rightarrow>
   bg_state \<times> post list" where
  "onUpdated now clk throws tabId ci t st =
     (let (changed, m) =
            (if has_audible ci then
               (let (r, m1) = upsertFromTab now (Some t) (audibleTabsMap st)
                in (r \<noteq> JFalse, m1))
             else
               (case Map_get tabId (audibleTabsMap st) of
                  Some e \<Rightarrow>
                    (reflectMetadata ci t e \<noteq> e,
                     Map_set tabId (reflectMetadata ci t e) (audibleTabsMap st))
                | None \<Rightarrow> (False, audibleTabsMap st)));
          st1 = st \<lparr> audibleTabsMap := m \<rparr>
      in if changed then pushUpdateToPopup throws (updateIconForMediaTabs clk st1)
         else (st1, []))"

definition onRemoved :: "clock \<Rightarrow> (port \<Rightarrow> bool) \<Rightarrow> int \<Rightarrow> bg_state \<Rightarrow> bg_state \<times> post list" where
  "onRemoved clk throws tabId st =
     (if Map_has tabId (audibleTabsMap st) then
        pushUpdateToPopup throws
          (updateIconForMediaTabs clk
             (st \<lparr> audibleTabsMap := Map_delete tabId (audibleTabsMap st) \<rparr>))
      else (st, []))"

text \<open>
  The \<^verbatim>\<open>toggle_play_pause\<close> command (its first handler; the second one further down
  the listener is never reached). On arrival the entry, if there is one, gets a fresh
  \<^verbatim>\<open>lastActive\<close>. When the injected script has answered, the entry takes the reported
  state and another fresh \<^verbatim>\<open>lastActive\<close>, and the update is pushed; an answer without
  a result makes \<^verbatim>\<open>result.isPlaying\<close> throw before anything is written.
\<close>

definition onTogglePlayPause :: "int \<Rightarrow> int \<Rightarrow> bg_state \<Rightarrow> bg_state \<times> post list" where
  "onTogglePlayPause now tabId st =
     (case Map_get tabId (audibleTabsMap st) of
        Some tabEntry \<Rightarrow>
          (st \<lparr> audibleTabsMap :=
                  Map_set tabId (tabEntry \<lparr> lastActive := Some now \<rparr>) (audibleTabsMap st) \<rparr>, [])
      | None \<Rightarrow> (st, []))"

definition onTogglePlayPauseResult ::
  "(port \<Rightarrow> bool) \<Rightarrow> int \<Rightarrow> int \<Rightarrow> bool option \<Rightarrow> bg_state \<Rightarrow> bg_state \<times> post list" where
  "onTogglePlayPauseResult throws now tabId result st =
     (case Map_get tabId (audibleTabsMap st) of
        Some tabEntry \<Rightarrow>
          (case result of
             Some playing \<Rightarrow>
               pushUpdateToPopup throws
                 (st \<lparr> audibleTabsMap :=
                         Map_set tabId
                           (tabEntry \<lparr> audible := Some playing, lastActive := Some now \<rparr>)
                           (audibleTabsMap st) \<rparr>)
           | None \<Rightarrow> (st, []))
      | None \<Rightarrow> (st, []))"

text \<open>
  The continuation of the \<^verbatim>\<open>toggle_mute\<close> command once the host has changed the
  tab: the entry, if there is one, takes the new mute state, and the update is pushed.
\<close>

definition onToggleMuteResult ::
  "(port \<Rightarrow> bool) \<Rightarrow> int \<Rightarrow> bool \<Rightarrow> bg_state \<Rightarrow> bg_state \<times> post list" where
  "onToggleMuteResult throws tabId isMuted st =
     (case Map_get tabId (audibleTabsMap st) of
        Some tabEntry \<Rightarrow>
          pushUpdateToPopup throws
            (st \<lparr> audibleTabsMap :=
                    Map_set tabId (tabEntry \<lparr> muted := Some isMuted \<rparr>) (audibleTabsMap st) \<rparr>)
      | None \<Rightarrow> (st, []))"

text \<open>
  The \<^verbatim>\<open>skip_track\<close> command after a successful skip, in its two steps, each after
  the host has answered \<^verbatim>\<open>tabs.get\<close>: the tab is upserted; then the entry of the tab
  is replaced by a copy with the tab's current title and url (a copy of the empty object
  when the tab has no entry), and the update is pushed.
\<close>

definition onSkipTrackTab :: "int \<Rightarrow> tab \<Rightarrow> bg_state \<Rightarrow> bg_state \<times> post list" where
  "onSkipTrackTab now t st =
     (st \<lparr> audibleTabsMap := snd (upsertFromTab now (Some t) (audibleTabsMap st)) \<rparr>, [])"

definition onSkipTrackUpdatedTab ::
  "(port \<Rightarrow> bool) \<Rightarrow> int \<Rightarrow> string option \<Rightarrow> string option \<Rightarrow> bg_state \<Rightarrow>
   bg_state \<times> post list" where
  "onSkipTrackUpdatedTab throws tabId newTitle newUrl st =
     (let old = (case Map_get tabId (audibleTabsMap st) of
                   Some e \<Rightarrow> e
                 | None \<Rightarrow> \<lparr> id_e = None, title = None, url = None, audible = None,
                              muted = None, lastActive = None \<rparr>)
      in pushUpdateToPopup throws
           (st \<lparr> audibleTabsMap :=
                   Map_set tabId (old \<lparr> title := newTitle, url := newUrl \<rparr>)
                     (audibleTabsMap st) \<rparr>))"

text \<open>
  The \<^verbatim>\<open>get_media_tabs\<close> command answers with the result of
  \<^verbatim>\<open>getAudibleTabs()\<close>, each tab rebuilt as an object that is labelled audible and
  playing whatever the entry says.
\<close>

record listed_tab =
  listed_id :: "int option"
  listed_title :: "string option"
  listed_url :: "string option"
  listed_audible :: bool
  listed_muted :: "bool option"
  listed_isPlaying :: bool
  listed_isPaused :: bool
  listed_mediaCount :: nat

definition get_media_tabs :: "clock \<Rightarrow> bg_state \<Rightarrow> listed_tab list \<times> bg_state" where
  "get_media_tabs clk st =
     (let (tabs, m) = getAudibleTabs clk (audibleTabsMap st);
          tabsData =
            map (\<lambda>tab. \<lparr> listed_id = id_e tab, listed_title = title tab, listed_url = url tab,
                         listed_audible = True, listed_muted = muted tab,
                         listed_isPlaying = True, listed_isPaused = False,
                         listed_mediaCount = 1 \<rparr>) tabs
      in (tabsData, st \<lparr> audibleTabsMap := m \<rparr>))"

text \<open>
  The events of the background page, one for each of the handlers above, with the
  readings and the answers of the host that the handler takes.
\<close>

datatype event =
    Connect port
  | Disconnect port
  | CleanupTimer int
  | Startup "(int \<times> tab) list" clock
  | WindowCreated clock
  | TabCreated int clock tab
  | TabUpdated int clock int changeInfo tab
  | TabRemoved clock int
  | GetMediaTabs clock
  | TogglePlayPause int int
  | TogglePlayPauseResult int int "bool option"
  | ToggleMuteResult int bool
  | SkipTrackTab int tab
  | SkipTrackUpdatedTab int "string option" "string option"

fun step :: "(port \<Rightarrow> bool) \<Rightarrow> event \<Rightarrow> bg_state \<Rightarrow> bg_state \<times> post list" where
  "step throws (Connect p) st = onConnect p st"
| "step throws (Disconnect p) st = (onDisconnect p st, [])"
| "step throws (CleanupTimer now) st = onCleanupTimer now st"
| "step throws (Startup tabs clk) st = onStartup tabs clk st"
| "step throws (WindowCreated clk) st = (updateIconForMediaTabs clk st, [])"
| "step throws (TabCreated now clk t) st = onCreated now clk throws t st"
| "step throws (TabUpdated now clk tabId ci t) st = onUpdated now clk throws tabId ci t st"
| "step throws (TabRemoved clk tabId) st = onRemoved clk throws tabId st"
| "step throws (GetMediaTabs clk) st = (snd (get_media_tabs clk st), [])"
| "step throws (TogglePlayPause now tabId) st = onTogglePlayPause now tabId st"
| "step throws (TogglePlayPauseResult now tabId result) st =
     onTogglePlayPauseResult throws now tabId result st"
| "step throws (ToggleMuteResult tabId isMuted) st = onToggleMuteResult throws tabId isMuted st"
| "step throws (SkipTrackTab now t) st = onSkipTrackTab now t st"
| "step throws (SkipTrackUpdatedTab tabId newTitle newUrl) st =
     onSkipTrackUpdatedTab throws tabId newTitle newUrl st"

fun run :: "((port \<Rightarrow> bool) \<times> event) list \<Rightarrow> bg_state \<Rightarrow> bg_state \<times> post list" where
  "run [] st = (st, [])"
| "run (e # es) st =
     (let (st1, posts1) = step (fst e) (snd e) st;
          (st2, posts2) = run es st1
      in (st2, posts1 @ posts2))"

section \<open>The skip resolver of the content scripts\<close>

text \<open>
  Two versions of \<^verbatim>\<open>skipTrack(direction)\<close> are in the repository. The older one builds
  its selector list from \<^verbatim>\<open>isNext\<close> and is embedded as \<open>skipTrack0\<close>; the later
  one, which also answers the \<^verbatim>\<open>execute_skip_track\<close> message, looks its selector
  list up under the direction string and is embedded as \<open>skipTrack1\<close>.
\<close>

subsection \<open>The page as the script sees it\<close>

text \<open>
  An element with the computed style and the layout box that the visibility test reads.
  An element without \<^verbatim>\<open>offsetWidth\<close> (the property is \<^verbatim>\<open>undefined\<close> outside HTML
  elements, and \<^verbatim>\<open>undefined > 0\<close> is false) is an element of width \<open>0\<close> here.
\<close>

record element =
  elem_id :: nat
  display :: string
  visibility :: string
  opacity :: string
  offsetWidth :: int
  offsetHeight :: int

text \<open>
  \<^verbatim>\<open>navigator.mediaSession\<close>: whether \<^verbatim>\<open>setActionHandler\<close> is there, and whether
  registering a handler for an action, or calling \<^verbatim>\<open>dispatchEvent\<close> with an event of
  that name, throws.
\<close>

record media_session =
  has_setActionHandler :: bool
  setActionHandler_throws :: "string \<Rightarrow> bool"
  session_dispatch_throws :: "string \<Rightarrow> bool"

text \<open>
  A player object: whether \<^verbatim>\<open>typeof player.nextTrack === 'function'\<close> (and the same
  for \<^verbatim>\<open>previousTrack\<close>), and whether the call throws.
\<close>

record player =
  player_id :: nat
  has_nextTrack :: bool
  has_previousTrack :: bool
  nextTrack_throws :: bool
  previousTrack_throws :: bool

datatype 'a outcome = Throws | Returns 'a

datatype target = Document | Window | ActiveElement

text \<open>
  The page. \<open>videojs_getPlayers\<close> is \<open>None\<close> when \<^verbatim>\<open>window.videojs\<close> or its
  \<^verbatim>\<open>getPlayers\<close> is falsy; otherwise it is the outcome of the call, the values of
  the returned object in order, a \<^verbatim>\<open>null\<close> value being \<open>None\<close>. \<open>windowGlobal n\<close>
  is the truthy value of \<^verbatim>\<open>window[n]\<close>, if any. \<open>dispatch_throws t\<close> tells whether
  \<^verbatim>\<open>t.dispatchEvent(event)\<close> throws (as it does when \<^verbatim>\<open>document.activeElement\<close> is
  \<^verbatim>\<open>null\<close>). The page answers the same way throughout one call of
  \<^verbatim>\<open>skipTrack\<close>.
\<close>

record page =
  querySelectorAll :: "string \<Rightarrow> element list"
  mediaSession :: "media_session option"
  videojs_getPlayers :: "player option list outcome option"
  windowGlobal :: "string \<Rightarrow> player option"
  dispatch_throws :: "target \<Rightarrow> bool"

text \<open>What the script does to the page, in order.\<close>

datatype effect =
    Click element
  | SetActionHandler string
  | SessionDispatch string
  | CallNextTrack player
  | CallPreviousTrack player
  | KeyDispatch target string int

text \<open>
  The returned object: \<^verbatim>\<open>{success: true, method}\<close> or
  \<^verbatim>\<open>{success: false, error, methodsTried}\<close>.
\<close>

datatype skip_result = Success string | Failure string "string list"

datatype js_error = TypeError

subsection \<open>The strategies\<close>

definition isVisible :: "element \<Rightarrow> bool" where
  "isVisible btn =
     (display btn \<noteq> ''none'' \<and> visibility btn \<noteq> ''hidden'' \<and> opacity btn \<noteq> ''0'' \<and>
      offsetWidth btn > 0 \<and> offsetHeight btn > 0)"

text \<open>
  The first loop: for each selector in order, the first visible element among all its
  matches. \<^verbatim>\<open>click()\<close> of an HTML element does not throw.
\<close>

fun findVisibleButton :: "page \<Rightarrow> string list \<Rightarrow> element option" where
  "findVisibleButton pg [] = None"
| "findVisibleButton pg (selector # rest) =
     (case find isVisible (querySelectorAll pg selector) of
        Some visibleButton \<Rightarrow> Some visibleButton
      | None \<Rightarrow> findVisibleButton pg rest)"

definition sessionSkip :: "media_session \<Rightarrow> string \<Rightarrow> skip_result option \<times> effect list" where
  "sessionSkip ms action =
     (if setActionHandler_throws ms action then (None, [SetActionHandler action])
      else if session_dispatch_throws ms action then
        (None, [SetActionHandler action, SessionDispatch action])
      else (Some (Success ''media-session''), [SetActionHandler action, SessionDispatch action]))"

definition tryMediaSession :: "bool \<Rightarrow> page \<Rightarrow> skip_result option \<times> effect list" where
  "tryMediaSession isNext pg =
     (case mediaSession pg of
        None \<Rightarrow> (None, [])
      | Some ms \<Rightarrow>
          if isNext \<and> has_setActionHandler ms then sessionSkip ms ''nexttrack''
          else if \<not> isNext \<and> has_setActionHandler ms then sessionSkip ms ''previoustrack''
          else (None, []))"

definition commonPlayers :: "string list" where
  "commonPlayers =
     [''player'', ''videoPlayer'', ''audioPlayer'', ''mediaPlayer'',
      ''ytplayer'', ''ytPlayer'', ''netflix'', ''spotifyPlayer'']"

text \<open>
  \<^verbatim>\<open>commonPlayers.forEach\<close>: a global is pushed when it is truthy and has a
  \<^verbatim>\<open>nextTrack\<close> function, whatever the direction.
\<close>

fun pushCommonPlayers :: "page \<Rightarrow> string list \<Rightarrow> player option list" where
  "pushCommonPlayers pg [] = []"
| "pushCommonPlayers pg (name # names) =
     (case windowGlobal pg name of
        Some w \<Rightarrow>
          (if has_nextTrack w then Some w # pushCommonPlayers pg names
           else pushCommonPlayers pg names)
      | None \<Rightarrow> pushCommonPlayers pg names)"

text \<open>
  The loop over the players. Reading \<^verbatim>\<open>player.nextTrack\<close> of a \<^verbatim>\<open>null\<close> player
  throws inside the inner \<^verbatim>\<open>try\<close>, and so does a failing call; both go on with the
  next player.
\<close>

fun playersLoop :: "bool \<Rightarrow> player option list \<Rightarrow> skip_result option \<times> effect list" where
  "playersLoop isNext [] = (None, [])"
| "playersLoop isNext (None # rest) = playersLoop isNext rest"
| "playersLoop isNext (Some pl # rest) =
     (if isNext \<and> has_nextTrack pl then
        (if nextTrack_throws pl then
           (let (r, es) = playersLoop isNext rest in (r, CallNextTrack pl # es))
         else (Some (Success ''player-api-next''), [CallNextTrack pl]))
      else if \<not> isNext \<and> has_previousTrack pl then
        (if previousTrack_throws pl then
           (let (r, es) = playersLoop isNext rest in (r, CallPreviousTrack pl # es))
         else (Some (Success ''player-api-prev''), [CallPreviousTrack pl]))
      else playersLoop isNext rest)"

text \<open>
  The third block. A throwing \<^verbatim>\<open>getPlayers()\<close> is caught by the outer \<^verbatim>\<open>try\<close>,
  which ends the block.
\<close>

definition tryPlayers :: "bool \<Rightarrow> page \<Rightarrow> skip_result option \<times> effect list" where
  "tryPlayers isNext pg =
     (case videojs_getPlayers pg of
        Some Throws \<Rightarrow> (None, [])
      | Some (Returns videoJsPlayers) \<Rightarrow>
          playersLoop isNext (videoJsPlayers @ pushCommonPlayers pg commonPlayers)
      | None \<Rightarrow> playersLoop isNext (pushCommonPlayers pg commonPlayers))"

text \<open>
  The loop over the three targets: every target is tried, \<open>success\<close> records whether
  some call returned.
\<close>

fun dispatchLoop :: "page \<Rightarrow> string \<Rightarrow> int \<Rightarrow> target list \<Rightarrow> bool \<Rightarrow> bool \<times> effect list" where
  "dispatchLoop pg key keyCode [] success = (success, [])"
| "dispatchLoop pg key keyCode (t # ts) success =
     (let (success', es) =
            dispatchLoop pg key keyCode ts (if dispatch_throws pg t then success else True)
      in (success', KeyDispatch t key keyCode # es))"

definition tryKeyboard :: "bool \<Rightarrow> page \<Rightarrow> skip_result option \<times> effect list" where
  "tryKeyboard isNext pg =
     (let keyCode = (if isNext then 176 else 177);
          key = (if isNext then ''MediaTrackNext'' else ''MediaTrackPrevious'');
          (success, es) = dispatchLoop pg key keyCode [Document, Window, ActiveElement] False
      in (if success then Some (Success ''keyboard-events'') else None, es))"

definition notFound :: skip_result where
  "notFound =
     Failure ''No supported track skipping method found on this page''
       [''button-click'', ''media-session'', ''player-api'', ''keyboard-events'']"

subsection \<open>skipTrack, older version\<close>

definition buttonSelectors0 :: "bool \<Rightarrow> string list" where
  \<open>buttonSelectors0 isNext =
     concat
       [if isNext then
          [''button[title*="next" i]'', ''button[aria-label*="next" i]'', ''.next'',
           ''.next-button'', ''.skip-button'', ''.skip-forward'']
        else
          [''button[title*="previous" i]'', ''button[aria-label*="previous" i]'', ''.prev'',
           ''.previous'', ''.previous-button'', ''.skip-back''],
        if isNext then [''.ytp-next-button'', ''.ytp-next-arrow'', ''.video-next-button'']
        else [''.ytp-prev-button'', ''.ytp-prev-arrow'', ''.video-prev-button''],
        if isNext then
          [''.spoticon-skip-forward'', ''.skip-control__next'', ''.player-controls__next'']
        else
          [''.spoticon-skip-back'', ''.skip-control__previous'', ''.player-controls__previous''],
        if isNext then [''[data-testid="control-button-skip-forward"]'', ''[data-testid="next"]'']
        else [''[data-testid="control-button-skip-back"]'', ''[data-testid="previous"]'']]\<close>

text \<open>
  The blocks after the button loop, shared by both versions up to the keyboard block:
  each returns at its first success, with the effects so far.
\<close>

definition keyboardOrFail :: "bool \<Rightarrow> page \<Rightarrow> effect list \<Rightarrow> skip_result \<times> effect list" where
  "keyboardOrFail isNext pg before =
     (let (r4, e4) = tryKeyboard isNext pg in
      case r4 of
        Some r \<Rightarrow> (r, before @ e4)
      | None \<Rightarrow> (notFound, before @ e4))"

definition skipTrack0 :: "string \<Rightarrow> page \<Rightarrow> skip_result \<times> effect list" where
  "skipTrack0 direction pg =
     (let isNext = (direction = ''next'') in
      case findVisibleButton pg (buttonSelectors0 isNext) of
        Some visibleButton \<Rightarrow> (Success ''button-click'', [Click visibleButton])
      | None \<Rightarrow>
          (let (r2, e2) = tryMediaSession isNext pg in
           case r2 of
             Some r \<Rightarrow> (r, e2)
           | None \<Rightarrow>
               (let (r3, e3) = tryPlayers isNext pg in
                case r3 of
                  Some r \<Rightarrow> (r, e2 @ e3)
                | None \<Rightarrow> keyboardOrFail isNext pg (e2 @ e3))))"

subsection \<open>skipTrack, later version\<close>

text \<open>
  The names every object inherits from \<^verbatim>\<open>Object.prototype\<close>. Under such a name
  \<^verbatim>\<open>commonButtonSelectors[direction]\<close> is a function or an object: truthy, and not
  iterable.
\<close>

definition objectPrototypeKeys :: "string list" where
  "objectPrototypeKeys =
     [''constructor'', ''__defineGetter__'', ''__defineSetter__'', ''hasOwnProperty'',
      ''__lookupGetter__'', ''__lookupSetter__'', ''isPrototypeOf'', ''propertyIsEnumerable'',
      ''toString'', ''valueOf'', ''__proto__'', ''toLocaleString'']"

text \<open>
  The two lists of the object \<^verbatim>\<open>commonButtonSelectors\<close>, and
  \<^verbatim>\<open>commonButtonSelectors[direction] || []\<close> as the \<^verbatim>\<open>for ... of\<close> loops meet it:
  the list to iterate, or the \<^verbatim>\<open>TypeError\<close> of iterating a value that is not
  iterable.
\<close>

definition commonButtonSelectors_next :: "string list" where
  \<open>commonButtonSelectors_next =
     [''.ytp-next-button'', ''.ytp-next-arrow'',
      ''.spoticon-skip-forward'',
      ''[data-testid="control-button-skip-forward"]'',
      ''[data-testid="next"]'',
      ''button[title*="next" i]'',
      ''button[aria-label*="next" i]'',
      ''.next'', ''.next-button'', ''.skip-forward'']\<close>

definition commonButtonSelectors_prev :: "string list" where
  \<open>commonButtonSelectors_prev =
     [''.ytp-prev-button'', ''.ytp-prev-arrow'',
      ''.spoticon-skip-back'',
      ''[data-testid="control-button-skip-back"]'',
      ''[data-testid="previous"]'',
      ''button[title*="previous" i]'',
      ''button[aria-label*="previous" i]'',
      ''.prev'', ''.previous'', ''.previous-button'', ''.skip-back'']\<close>

definition commonButtonSelectors :: "string \<Rightarrow> js_error + string list" where
  "commonButtonSelectors direction =
     (if direction = ''next'' then Inr commonButtonSelectors_next
      else if direction = ''prev'' then Inr commonButtonSelectors_prev
      else if direction \<in> set objectPrototypeKeys then Inl TypeError
      else Inr [])"

text \<open>
  The fourth block of the later version: for each selector the first match only
  (\<^verbatim>\<open>querySelector\<close>), clicked when visible.
\<close>

fun findFirstMatchVisible :: "page \<Rightarrow> string list \<Rightarrow> element option" where
  "findFirstMatchVisible pg [] = None"
| "findFirstMatchVisible pg (selector # rest) =
     (case querySelectorAll pg selector of
        [] \<Rightarrow> findFirstMatchVisible pg rest
      | button # others \<Rightarrow>
          (if isVisible button then Some button else findFirstMatchVisible pg rest))"

text \<open>
  The body once the selector list is known. The scan of the media elements at the top of
  the function fills a list that nothing reads, and is left out.
\<close>

definition resolve1 :: "bool \<Rightarrow> string list \<Rightarrow> page \<Rightarrow> skip_result \<times> effect list" where
  "resolve1 isNext buttonSelectors pg =
     (case findVisibleButton pg buttonSelectors of
        Some visibleButton \<Rightarrow> (Success ''button-click'', [Click visibleButton])
      | None \<Rightarrow>
          (let (r2, e2) = tryMediaSession isNext pg in
           case r2 of
             Some r \<Rightarrow> (r, e2)
           | None \<Rightarrow>
               (let (r3, e3) = tryPlayers isNext pg in
                case r3 of
                  Some r \<Rightarrow> (r, e2 @ e3)
                | None \<Rightarrow>
                    (case findFirstMatchVisible pg buttonSelectors of
                       Some button \<Rightarrow> (Success ''button-click'', e2 @ e3 @ [Click button])
                     | None \<Rightarrow> keyboardOrFail isNext pg (e2 @ e3)))))"

definition skipTrack1 :: "string \<Rightarrow> page \<Rightarrow> (js_error + skip_result) \<times> effect list" where
  "skipTrack1 direction pg =
     (case commonButtonSelectors direction of
        Inl err \<Rightarrow> (Inl err, [])
      | Inr buttonSelectors \<Rightarrow>
          (let (r, es) = resolve1 (direction = ''next'') buttonSelectors pg in (Inr r, es)))"

section \<open>Predicates and sample inputs used in the statements\<close>

text \<open>
  What \<^verbatim>\<open>upsertFromTab\<close> maintains: the keys of the map are pairwise different, and
  every entry is stored under its own id.
\<close>

definition cacheInv :: "(int, entry) jsmap \<Rightarrow> bool" where
  "cacheInv m = (distinct (map fst m) \<and> list_all (\<lambda>p. id_e (snd p) = Some (fst p)) m)"

definition cacheInv_bg :: "(int, entry_bg) jsmap \<Rightarrow> bool" where
  "cacheInv_bg m = (distinct (map fst m) \<and> list_all (\<lambda>p. bg_id (snd p) = fst p) m)"

text \<open>The test of \<^verbatim>\<open>cleanupOldTabs\<close> on one entry.\<close>

definition stale :: "int \<Rightarrow> entry \<Rightarrow> bool" where
  "stale now t =
     (\<not> jsTrue (audible t) \<and>
      (case lastActive t of None \<Rightarrow> False | Some l \<Rightarrow> now - l \<ge> TAB_RETENTION_MS))"

text \<open>Whether an event is the connection of a port.\<close>

fun isConnect :: "event \<Rightarrow> bool" where
  "isConnect (Connect p) = True"
| "isConnect ev = False"

text \<open>
  Sample clocks: one that shows the same value at every reading of a call, and one that
  shows \<open>a\<close> to \<^verbatim>\<open>cleanupOldTabs\<close> and \<open>b\<close> to the filter.
\<close>

definition steadyClock :: "int \<Rightarrow> clock" where
  "steadyClock n = \<lparr> cleanupNow = n, filterNow = (\<lambda>k. n) \<rparr>"


text \<open>Sample tabs, entries, states and ports.\<close>

definition songTab :: tab where
  "songTab = \<lparr> tab_id = Some 42, tab_title = Some ''Song A'',
               tab_url = Some ''https://music.example/a'', tab_audible = True,
               tab_mutedInfo = Some False \<rparr>"

definition songEntry :: entry where
  "songEntry = \<lparr> id_e = Some 42, title = Some ''Song A'',
                 url = Some ''https://music.example/a'', audible = Some True,
                 muted = Some False, lastActive = Some 5 \<rparr>"

definition songEntry_bg :: entry_bg where
  "songEntry_bg = \<lparr> bg_id = 42, bg_title = ''Song A'', bg_url = ''https://music.example/a'',
                    bg_audible = True, bg_muted = False \<rparr>"

definition staleEntry :: entry where
  "staleEntry = \<lparr> id_e = Some 7, title = Some ''Old'', url = Some ''https://old.example/'',
                  audible = Some False, muted = Some False, lastActive = Some 0 \<rparr>"

definition staleState :: bg_state where
  "staleState = \<lparr> audibleTabsMap = [(7, staleEntry)], popupPorts = [] \<rparr>"

definition popupPort :: port where
  "popupPort = \<lparr> port_id = 1, port_name = ''popup'' \<rparr>"

definition deadPort :: port where
  "deadPort = \<lparr> port_id = 2, port_name = ''popup'' \<rparr>"

definition otherPort :: port where
  "otherPort = \<lparr> port_id = 3, port_name = ''popup'' \<rparr>"

definition mutedState :: bg_state where
  "mutedState = \<lparr> audibleTabsMap = [(7, staleEntry), (42, songEntry)], popupPorts = [popupPort] \<rparr>"

definition portState :: bg_state where
  "portState = \<lparr> audibleTabsMap = [(42, songEntry)], popupPorts = [popupPort, deadPort, otherPort] \<rparr>"

text \<open>
  When each strategy of the resolver finds nothing, read off the page: no selector of
  the list has a visible match; the media session is absent, has no
  \<^verbatim>\<open>setActionHandler\<close>, or one of its two calls throws; \<^verbatim>\<open>getPlayers()\<close> throws or
  no collected player has a callable method for the direction that returns; every
  keyboard dispatch throws.
\<close>

definition noVisibleButton :: "page \<Rightarrow> string list \<Rightarrow> bool" where
  "noVisibleButton pg selectors =
     (\<forall>s \<in> set selectors. \<forall>b \<in> set (querySelectorAll pg s). \<not> isVisible b)"

definition sessionAction :: "bool \<Rightarrow> string" where
  "sessionAction isNext = (if isNext then ''nexttrack'' else ''previoustrack'')"

definition sessionFails :: "bool \<Rightarrow> page \<Rightarrow> bool" where
  "sessionFails isNext pg =
     (case mediaSession pg of
        None \<Rightarrow> True
      | Some ms \<Rightarrow>
          \<not> has_setActionHandler ms \<or> setActionHandler_throws ms (sessionAction isNext) \<or>
          session_dispatch_throws ms (sessionAction isNext))"

definition candidatePlayers :: "page \<Rightarrow> player option list" where
  "candidatePlayers pg =
     (case videojs_getPlayers pg of Some (Returns ps) \<Rightarrow> ps | _ \<Rightarrow> []) @
     pushCommonPlayers pg commonPlayers"

definition playerSkips :: "bool \<Rightarrow> player \<Rightarrow> bool" where
  "playerSkips isNext pl =
     (if isNext then has_nextTrack pl \<and> \<not> nextTrack_throws pl
      else has_previousTrack pl \<and> \<not> previousTrack_throws pl)"

definition playersFail :: "bool \<Rightarrow> page \<Rightarrow> bool" where
  "playersFail isNext pg =
     (videojs_getPlayers pg = Some Throws \<or>
      (\<forall>pl. Some pl \<in> set (candidatePlayers pg) \<longrightarrow> \<not> playerSkips isNext pl))"

definition keyboardFails :: "page \<Rightarrow> bool" where
  "keyboardFails pg =
     (dispatch_throws pg Document \<and> dispatch_throws pg Window \<and> dispatch_throws pg ActiveElement)"

definition allStrategiesFail :: "bool \<Rightarrow> string list \<Rightarrow> page \<Rightarrow> bool" where
  "allStrategiesFail isNext selectors pg =
     (noVisibleButton pg selectors \<and> sessionFails isNext pg \<and> playersFail isNext pg \<and>
      keyboardFails pg)"

text \<open>The three dispatches of the keyboard block, in order.\<close>

definition keyEvents :: "bool \<Rightarrow> effect list" where
  "keyEvents isNext =
     (if isNext then
        [KeyDispatch Document ''MediaTrackNext'' 176, KeyDispatch Window ''MediaTrackNext'' 176,
         KeyDispatch ActiveElement ''MediaTrackNext'' 176]
      else
        [KeyDispatch Document ''MediaTrackPrevious'' 177,
         KeyDispatch Window ''MediaTrackPrevious'' 177,
         KeyDispatch ActiveElement ''MediaTrackPrevious'' 177])"

text \<open>Sample elements and pages.\<close>

definition visibleButton :: "nat \<Rightarrow> element" where
  "visibleButton n = \<lparr> elem_id = n, display = ''block'', visibility = ''visible'',
                       opacity = ''1'', offsetWidth = 40, offsetHeight = 40 \<rparr>"

definition hiddenButton :: "nat \<Rightarrow> element" where
  "hiddenButton n = \<lparr> elem_id = n, display = ''none'', visibility = ''visible'',
                      opacity = ''1'', offsetWidth = 0, offsetHeight = 0 \<rparr>"

definition emptyPage :: page where
  "emptyPage = \<lparr> querySelectorAll = (\<lambda>s. []), mediaSession = None, videojs_getPlayers = None,
                 windowGlobal = (\<lambda>n. None), dispatch_throws = (\<lambda>t. False) \<rparr>"

definition nextPage :: page where
  "nextPage = emptyPage \<lparr> querySelectorAll :=
     (\<lambda>s. if s = ''.ytp-next-button'' then [hiddenButton 1, visibleButton 2]
          else if s = ''.next'' then [visibleButton 3] else []) \<rparr>"

definition prevPage :: page where
  "prevPage = emptyPage \<lparr> querySelectorAll :=
     (\<lambda>s. if s = ''.ytp-prev-button'' then [visibleButton 4] else []) \<rparr>"

definition deafPage :: page where
  "deafPage = emptyPage \<lparr> dispatch_throws := (\<lambda>t. True) \<rparr>"

definition unfocusedPage :: page where
  "unfocusedPage = emptyPage
     \<lparr> mediaSession := Some \<lparr> has_setActionHandler = True,
                              setActionHandler_throws = (\<lambda>a. False),
                              session_dispatch_throws = (\<lambda>a. True) \<rparr>,
       videojs_getPlayers := Some (Returns [None]),
       dispatch_throws := (\<lambda>t. t = Document \<or> t = ActiveElement) \<rparr>"

section \<open>Properties of the cache\<close>

subsection \<open>The map operations\<close>

lemma Map_has_iff: "Map_has k m = (k \<in> fst ` set m)"
  by (induction m) auto


lemma Map_has_get: "Map_has k m = (Map_get k m \<noteq> None)"
  by (induction m) auto

lemma Map_get_in: "Map_get k m = Some v \<Longrightarrow> (k, v) \<in> set m"
  by (induction m) (auto split: if_splits)


lemma Map_get_set: "Map_get j (Map_set k v m) = (if j = k then Some v else Map_get j m)"
  by (induction m) auto

lemma Map_get_delete: "Map_get j (Map_delete k m) = (if j = k then None else Map_get j m)"
  by (induction m) auto

lemma Map_delete_filter: "Map_delete k m = filter (\<lambda>p. fst p \<noteq> k) m"
  by (induction m) auto

lemma keys_Map_set:
  "map fst (Map_set k v m) = (if k \<in> fst ` set m then map fst m else map fst m @ [k])"
  by (induction m) auto

lemma set_Map_set: "set (Map_set k v m) \<subseteq> insert (k, v) (set m)"
  by (induction m) auto

lemma distinct_Map_set: "distinct (map fst m) \<Longrightarrow> distinct (map fst (Map_set k v m))"
  by (simp add: keys_Map_set)

lemma distinct_Map_delete: "distinct (map fst m) \<Longrightarrow> distinct (map fst (Map_delete k m))"
  by (simp add: Map_delete_filter distinct_map_filter)

subsection \<open>The invariant\<close>

lemma cacheInv_set: "cacheInv m \<Longrightarrow> id_e v = Some k \<Longrightarrow> cacheInv (Map_set k v m)"
  using set_Map_set [of k v m]
  by (auto simp: cacheInv_def distinct_Map_set list_all_iff)

lemma cacheInv_bg_set: "cacheInv_bg m \<Longrightarrow> bg_id v = k \<Longrightarrow> cacheInv_bg (Map_set k v m)"
  using set_Map_set [of k v m]
  by (auto simp: cacheInv_bg_def distinct_Map_set list_all_iff)

lemma cacheInv_bg_delete: "cacheInv_bg m \<Longrightarrow> cacheInv_bg (Map_delete k m)"
  using distinct_Map_delete [of m k]
  by (auto simp: cacheInv_bg_def list_all_iff Map_delete_filter)

lemma cacheInv_get: "cacheInv m \<Longrightarrow> Map_get k m = Some v \<Longrightarrow> id_e v = Some k"
  by (auto simp: cacheInv_def list_all_iff dest!: Map_get_in)

lemma cacheInv_upsert: "cacheInv m \<Longrightarrow> cacheInv (snd (upsertFromTab now a m))"
  by (auto simp: upsertFromTab_def Let_def cacheInv_set cacheInv_get split: option.splits)

lemma cacheInv_bg_upsert: "cacheInv_bg m \<Longrightarrow> cacheInv_bg (snd (upsertFromTab_bg a m))"
  by (auto simp: upsertFromTab_bg_def Let_def cacheInv_bg_set cacheInv_bg_delete split: option.splits)

lemma cacheInv_upsertAll: "cacheInv m \<Longrightarrow> cacheInv (upsertAll cs m)"
  by (induction cs arbitrary: m) (auto simp: cacheInv_upsert)

lemma cacheInv_bg_upsertAll: "cacheInv_bg m \<Longrightarrow> cacheInv_bg (upsertAll_bg cs m)"
  by (induction cs arbitrary: m) (auto simp: cacheInv_bg_upsert)

lemma distinct_map_Some: "distinct (map Some xs) = distinct xs"
  by (induction xs) auto

lemma cacheInv_ids: "cacheInv m \<Longrightarrow> map id_e (Map_values m) = map Some (map fst m)"
  by (auto simp: cacheInv_def Map_values_def list_all_iff)

lemma cacheInv_bg_ids: "cacheInv_bg m \<Longrightarrow> map bg_id (Map_values m) = map fst m"
  by (auto simp: cacheInv_bg_def Map_values_def list_all_iff)

text \<open>
  C8. Starting from the empty cache, after any number \<open>n\<close> of calls out of any
  sequence of \<^verbatim>\<open>upsertFromTab\<close> calls, no two entries of the cache carry the same tab
  id and no key occurs twice. This holds for the retaining script and for
  \<^verbatim>\<open>background.js\<close>.
\<close>

theorem one_record_per_tab_id:
  "distinct (map id_e (Map_values (upsertAll (take n calls) []))) \<and>
   distinct (map fst (upsertAll (take n calls) [])) \<and>
   distinct (map bg_id (Map_values (upsertAll_bg (take k calls_bg) []))) \<and>
   distinct (map fst (upsertAll_bg (take k calls_bg) []))"
proof -
  have a: "cacheInv (upsertAll (take n calls) [])"
    by (rule cacheInv_upsertAll) (simp add: cacheInv_def)
  have b: "cacheInv_bg (upsertAll_bg (take k calls_bg) [])"
    by (rule cacheInv_bg_upsertAll) (simp add: cacheInv_bg_def)
  from a have a1: "distinct (map fst (upsertAll (take n calls) []))"
    by (simp add: cacheInv_def)
  from b have b1: "distinct (map fst (upsertAll_bg (take k calls_bg) []))"
    by (simp add: cacheInv_bg_def)
  have a2: "distinct (map id_e (Map_values (upsertAll (take n calls) [])))"
    unfolding cacheInv_ids [OF a] distinct_map_Some by (rule a1)
  show ?thesis
    using a1 a2 b1 cacheInv_bg_ids [OF b] by simp
qed

text \<open>
  C10. A call with a \<^verbatim>\<open>null\<close> or \<^verbatim>\<open>undefined\<close> tab, or with a tab whose id is
  \<^verbatim>\<open>null\<close> or \<^verbatim>\<open>undefined\<close>, returns \<^verbatim>\<open>false\<close> and leaves the cache as it
  was, in both scripts.
\<close>

theorem upsert_without_id_is_noop:
  "upsertFromTab now None m = (JFalse, m) \<and>
   upsertFromTab now (Some (t \<lparr> tab_id := None \<rparr>)) m = (JFalse, m) \<and>
   upsertFromTab_bg None m' = (JFalse, m') \<and>
   upsertFromTab_bg (Some (t \<lparr> tab_id := None \<rparr>)) m' = (JFalse, m')"
  by (simp add: upsertFromTab_def upsertFromTab_bg_def)

subsection \<open>upsertFromTab by the audible flag\<close>

lemma numberToString_42: "numberToString 42 = ''42''"
  by (simp add: numberToString_def digitsOf.simps)

text \<open>
  C1, as the code has it. For a tab with an id:
  in the retaining script an audible tab gets an entry with the current metadata and
  \<open>lastActive = now\<close>, and the call returns \<^verbatim>\<open>'added'\<close> when the id was new and
  \<^verbatim>\<open>'updated'\<close> otherwise; a silent tab with an entry keeps the entry, with
  \<open>audible\<close> set to \<open>False\<close> (and a zero or missing \<open>lastActive\<close> replaced by \<open>now\<close>), and the
  call returns \<^verbatim>\<open>'updated'\<close>; a silent tab without an entry leaves the cache unchanged
  and the call returns \<^verbatim>\<open>false\<close>. No entry under another id changes.
  In \<^verbatim>\<open>background.js\<close> an audible tab is treated the same way (its entries have no
  \<open>lastActive\<close>); a silent tab with an entry loses the entry and the call returns
  \<^verbatim>\<open>'removed'\<close>; a silent tab without an entry leaves the cache unchanged and the call
  returns \<^verbatim>\<open>false\<close>.
\<close>

theorem upsert_by_audible_flag:
  assumes "tab_id t = Some i"
  shows
   "(tab_audible t \<longrightarrow>
       fst (upsertFromTab now (Some t) m) = (if Map_has i m then JStr ''updated'' else JStr ''added'') \<and>
       Map_get i (snd (upsertFromTab now (Some t) m)) =
         Some \<lparr> id_e = Some i,
                title = Some (strOr (tab_title t) (strOr (tab_url t) (''Tab '' @ numberToString i))),
                url = Some (strOr (tab_url t) []), audible = Some True,
                muted = Some (tab_mutedInfo t = Some True), lastActive = Some now \<rparr>) \<and>
    (\<not> tab_audible t \<longrightarrow>
       (\<forall>ex. Map_get i m = Some ex \<longrightarrow>
          fst (upsertFromTab now (Some t) m) = JStr ''updated'' \<and>
          Map_get i (snd (upsertFromTab now (Some t) m)) =
            Some (ex \<lparr> audible := Some False,
                       lastActive :=
                         Some (case lastActive ex of
                                 None \<Rightarrow> now
                               | Some l \<Rightarrow> if l = 0 then now else l) \<rparr>) \<and>
          map fst (snd (upsertFromTab now (Some t) m)) = map fst m)) \<and>
    (\<not> tab_audible t \<and> Map_get i m = None \<longrightarrow> upsertFromTab now (Some t) m = (JFalse, m)) \<and>
    (\<forall>j. j \<noteq> i \<longrightarrow> Map_get j (snd (upsertFromTab now (Some t) m)) = Map_get j m) \<and>
    (tab_audible t \<longrightarrow>
       fst (upsertFromTab_bg (Some t) b) = (if Map_has i b then JStr ''updated'' else JStr ''added'') \<and>
       Map_get i (snd (upsertFromTab_bg (Some t) b)) =
         Some \<lparr> bg_id = i,
                bg_title = strOr (tab_title t) (strOr (tab_url t) (''Tab '' @ numberToString i)),
                bg_url = strOr (tab_url t) [], bg_audible = True,
                bg_muted = (tab_mutedInfo t = Some True) \<rparr>) \<and>
    (\<not> tab_audible t \<and> Map_has i b \<longrightarrow>
       fst (upsertFromTab_bg (Some t) b) = JStr ''removed'' \<and>
       Map_get i (snd (upsertFromTab_bg (Some t) b)) = None) \<and>
    (\<not> tab_audible t \<and> \<not> Map_has i b \<longrightarrow> upsertFromTab_bg (Some t) b = (JFalse, b)) \<and>
    (\<forall>j. j \<noteq> i \<longrightarrow> Map_get j (snd (upsertFromTab_bg (Some t) b)) = Map_get j b)"
proof -
  have mu: "(case tab_mutedInfo t of None \<Rightarrow> False | Some x \<Rightarrow> x) = (tab_mutedInfo t = Some True)"
    by (cases "tab_mutedInfo t") auto
  have keys: "\<And>v. Map_has i m \<Longrightarrow> map fst (Map_set i v m) = map fst m"
    by (simp add: keys_Map_set Map_has_iff)
  have a: "tab_audible t \<Longrightarrow>
       fst (upsertFromTab now (Some t) m) = (if Map_has i m then JStr ''updated'' else JStr ''added'') \<and>
       Map_get i (snd (upsertFromTab now (Some t) m)) =
         Some \<lparr> id_e = Some i,
                title = Some (strOr (tab_title t) (strOr (tab_url t) (''Tab '' @ numberToString i))),
                url = Some (strOr (tab_url t) []), audible = Some True,
                muted = Some (tab_mutedInfo t = Some True), lastActive = Some now \<rparr>"
    using assms by (simp add: upsertFromTab_def Let_def Map_get_set mu)
  have b: "\<And>ex. \<not> tab_audible t \<Longrightarrow> Map_get i m = Some ex \<Longrightarrow>
          fst (upsertFromTab now (Some t) m) = JStr ''updated'' \<and>
          Map_get i (snd (upsertFromTab now (Some t) m)) =
            Some (ex \<lparr> audible := Some False,
                       lastActive :=
                         Some (case lastActive ex of
                                 None \<Rightarrow> now
                               | Some l \<Rightarrow> if l = 0 then now else l) \<rparr>) \<and>
          map fst (snd (upsertFromTab now (Some t) m)) = map fst m"
    using assms by (simp add: upsertFromTab_def Let_def Map_get_set Map_has_get keys)
  have c: "\<not> tab_audible t \<Longrightarrow> Map_get i m = None \<Longrightarrow> upsertFromTab now (Some t) m = (JFalse, m)"
    using assms by (simp add: upsertFromTab_def Let_def Map_has_get)
  have d: "\<And>j. j \<noteq> i \<Longrightarrow> Map_get j (snd (upsertFromTab now (Some t) m)) = Map_get j m"
    using assms by (simp add: upsertFromTab_def Let_def Map_get_set split: option.splits)
  have e: "tab_audible t \<Longrightarrow>
       fst (upsertFromTab_bg (Some t) b) = (if Map_has i b then JStr ''updated'' else JStr ''added'') \<and>
       Map_get i (snd (upsertFromTab_bg (Some t) b)) =
         Some \<lparr> bg_id = i,
                bg_title = strOr (tab_title t) (strOr (tab_url t) (''Tab '' @ numberToString i)),
                bg_url = strOr (tab_url t) [], bg_audible = True,
                bg_muted = (tab_mutedInfo t = Some True) \<rparr>"
    using assms by (simp add: upsertFromTab_bg_def Let_def Map_get_set mu)
  have f: "\<not> tab_audible t \<Longrightarrow> Map_has i b \<Longrightarrow>
       fst (upsertFromTab_bg (Some t) b) = JStr ''removed'' \<and>
       Map_get i (snd (upsertFromTab_bg (Some t) b)) = None"
    using assms by (simp add: upsertFromTab_bg_def Let_def Map_get_delete)
  have g: "\<not> tab_audible t \<Longrightarrow> \<not> Map_has i b \<Longrightarrow> upsertFromTab_bg (Some t) b = (JFalse, b)"
    using assms by (simp add: upsertFromTab_bg_def Let_def)
  have h: "\<And>j. j \<noteq> i \<Longrightarrow> Map_get j (snd (upsertFromTab_bg (Some t) b)) = Map_get j b"
    using assms by (simp add: upsertFromTab_bg_def Let_def Map_get_set Map_get_delete)
  show ?thesis
    using a b c d e f g h by blast
qed

theorem upsert_by_audible_flag_witness:
  "upsertFromTab 5 (Some songTab) [] = (JStr ''added'', [(42, songEntry)]) \<and>
   upsertFromTab 9 (Some (songTab \<lparr> tab_audible := False \<rparr>)) [(42, songEntry)] =
     (JStr ''updated'', [(42, songEntry \<lparr> audible := Some False \<rparr>)]) \<and>
   upsertFromTab 9 (Some (songTab \<lparr> tab_audible := False \<rparr>)) [] = (JFalse, []) \<and>
   fst (upsertFromTab_bg (Some songTab) []) = JStr ''added'' \<and>
   fst (upsertFromTab_bg (Some (songTab \<lparr> tab_audible := False \<rparr>)) [(42, songEntry_bg)]) = JStr ''removed''"
  using upsert_by_audible_flag [of songTab 42 5 "[]" "[]"]
    upsert_by_audible_flag [of "songTab \<lparr> tab_audible := False \<rparr>" 42 9 "[(42, songEntry)]" "[(42, songEntry_bg)]"]
    upsert_by_audible_flag [of "songTab \<lparr> tab_audible := False \<rparr>" 42 9 "[]" "[]"]
  by (simp add: songTab_def songEntry_def songEntry_bg_def upsertFromTab_def strOr_def)

text \<open>
  C1 as stated fails: in \<^verbatim>\<open>background.js\<close> a silent tab that has an entry is
  deleted and the call returns \<^verbatim>\<open>'removed'\<close>; and the value returned for a silent
  tab without an entry is \<^verbatim>\<open>false\<close>, not a string \<^verbatim>\<open>'none'\<close>.
\<close>

theorem upsert_bg_deletes_silent_tab:
  "upsertFromTab_bg (Some (songTab \<lparr> tab_audible := False \<rparr>)) [(42, songEntry_bg)] =
     (JStr ''removed'', []) \<and>
   fst (upsertFromTab 9 (Some (songTab \<lparr> tab_audible := False \<rparr>)) []) \<noteq> JStr ''none''"
  by (simp add: upsertFromTab_bg_def upsertFromTab_def songTab_def)

subsection \<open>Retention and eviction\<close>

lemma cleanupLoop_filter:
  "cleanupLoop now ps m =
     filter (\<lambda>p. \<not> (\<exists>q \<in> set ps. fst q = fst p \<and> stale now (snd q))) m"
proof (induction ps arbitrary: m)
  case Nil
  then show ?case by simp
next
  case (Cons a ps)
  show ?case
    by (auto simp: Cons.IH Map_delete_filter stale_def intro!: filter_cong)
qed

lemma cleanupOldTabs_filter:
  assumes "distinct (map fst m)"
  shows "cleanupOldTabs now m = filter (\<lambda>p. \<not> stale now (snd p)) m"
proof -
  have "\<And>p. p \<in> set m \<Longrightarrow>
          (\<exists>q \<in> set m. fst q = fst p \<and> stale now (snd q)) = stale now (snd p)"
    using assms by (metis eq_key_imp_eq_value prod.collapse)
  then show ?thesis
    unfolding cleanupOldTabs_def cleanupLoop_filter
    by (intro filter_cong) auto
qed

text \<open>
  The list that \<^verbatim>\<open>getAudibleTabs\<close> returns: the values left by the eviction that the
  callback keeps, each tested with the reading taken at its index.
\<close>

lemma filtered_values:
  "(x \<in> set (map snd (filter (\<lambda>p. filterCallback (f (fst p)) (snd p)) (enumerate 0 xs)))) =
   (\<exists>k < length xs. xs ! k = x \<and> filterCallback (f k) x)"
proof
  assume "x \<in> set (map snd (filter (\<lambda>p. filterCallback (f (fst p)) (snd p)) (enumerate 0 xs)))"
  then obtain p where p: "p \<in> set (enumerate 0 xs)" "filterCallback (f (fst p)) (snd p)" "snd p = x"
    by auto
  from p(1) have "fst p < length xs" "xs ! fst p = snd p"
    by (simp_all add: in_set_enumerate_eq)
  with p(2,3) show "\<exists>k < length xs. xs ! k = x \<and> filterCallback (f k) x"
    by auto
next
  assume "\<exists>k < length xs. xs ! k = x \<and> filterCallback (f k) x"
  then obtain k where k: "k < length xs" "xs ! k = x" "filterCallback (f k) x"
    by blast
  then have "(k, x) \<in> set (enumerate 0 xs)"
    by (simp add: in_set_enumerate_eq)
  with k(3) have "(k, x) \<in> set (filter (\<lambda>p. filterCallback (f (fst p)) (snd p)) (enumerate 0 xs))"
    by simp
  then show "x \<in> set (map snd (filter (\<lambda>p. filterCallback (f (fst p)) (snd p)) (enumerate 0 xs)))"
    by force
qed

lemma getAudibleTabs_result:
  assumes "distinct (map fst m)"
  shows "(x \<in> set (fst (getAudibleTabs clk m))) =
           (\<exists>k < length (filter (\<lambda>p. \<not> stale (cleanupNow clk) (snd p)) m).
              snd (filter (\<lambda>p. \<not> stale (cleanupNow clk) (snd p)) m ! k) = x \<and>
              filterCallback (filterNow clk k) x)"
    and "snd (getAudibleTabs clk m) = filter (\<lambda>p. \<not> stale (cleanupNow clk) (snd p)) m"
proof -
  show s: "snd (getAudibleTabs clk m) = filter (\<lambda>p. \<not> stale (cleanupNow clk) (snd p)) m"
    by (simp add: getAudibleTabs_def Let_def cleanupOldTabs_filter [OF assms])
  have "fst (getAudibleTabs clk m) =
          map snd (filter (\<lambda>p. filterCallback (filterNow clk (fst p)) (snd p))
            (enumerate 0 (map snd (filter (\<lambda>p. \<not> stale (cleanupNow clk) (snd p)) m))))"
    by (simp add: getAudibleTabs_def Let_def cleanupOldTabs_filter [OF assms] Map_values_def)
  then show "(x \<in> set (fst (getAudibleTabs clk m))) =
           (\<exists>k < length (filter (\<lambda>p. \<not> stale (cleanupNow clk) (snd p)) m).
              snd (filter (\<lambda>p. \<not> stale (cleanupNow clk) (snd p)) m ! k) = x \<and>
              filterCallback (filterNow clk k) x)"
    by (simp only: filtered_values) auto
qed






subsection \<open>Which reads evict first\<close>

lemma getAudibleTabs_no_stale:
  "x \<in> set (fst (getAudibleTabs clk m)) \<Longrightarrow> \<exists>k. filterCallback (filterNow clk k) x"
  by (auto simp: getAudibleTabs_def Let_def in_set_enumerate_eq)

text \<open>
  C2 at a failing input. The cache holds a silent entry whose \<open>lastActive\<close> is a full
  retention window in the past. The snapshot posted to a popup that connects at that
  moment contains the entry, and so does the snapshot pushed when a
  \<^verbatim>\<open>toggle_mute\<close> command on another tab completes: neither path runs the eviction.
  The answer to \<^verbatim>\<open>get_media_tabs\<close> at the same moment is empty.
\<close>

theorem connect_and_command_push_skip_eviction:
  "snd (onConnect popupPort staleState) =
     [\<lparr> post_port = popupPort,
        post_message = Update_media_tabs [\<lparr> sent_entry = staleEntry, isPlaying = None \<rparr>],
        post_threw = False \<rparr>] \<and>
   snd (onToggleMuteResult (\<lambda>p. False) 42 True mutedState) =
     [\<lparr> post_port = popupPort,
        post_message =
          Update_media_tabs
            [\<lparr> sent_entry = staleEntry, isPlaying = Some False \<rparr>,
             \<lparr> sent_entry = songEntry \<lparr> muted := Some True \<rparr>, isPlaying = Some True \<rparr>],
        post_threw = False \<rparr>] \<and>
   audible staleEntry = Some False \<and> lastActive staleEntry = Some 0 \<and>
   1800000 - 0 \<ge> TAB_RETENTION_MS \<and>
   fst (get_media_tabs (steadyClock 1800000) staleState) = []"
  by (simp add: onConnect_def onToggleMuteResult_def pushUpdateToPopup_def staleState_def
      mutedState_def staleEntry_def songEntry_def popupPort_def Map_values_def
      TAB_RETENTION_MS_def get_media_tabs_def getAudibleTabs_def cleanupOldTabs_def
      steadyClock_def jsTrue_def)

subsection \<open>Pushing to the popups\<close>

lemma pushLoop_ports: "map post_port (snd (pushLoop thr msg ps reg)) = ps"
  by (induction ps arbitrary: reg) (auto simp: Let_def case_prod_beta)

lemma pushLoop_threw: "map post_threw (snd (pushLoop thr msg ps reg)) = map thr ps"
  by (induction ps arbitrary: reg) (auto simp: Let_def case_prod_beta)

lemma pushLoop_messages:
  "map post_message (snd (pushLoop thr msg ps reg)) = map (\<lambda>p. msg) ps"
  by (induction ps arbitrary: reg) (auto simp: Let_def case_prod_beta)

lemma pushLoop_registered:
  "fst (pushLoop thr msg ps reg) = filter (\<lambda>p. \<not> (p \<in> set ps \<and> thr p)) reg"
proof (induction ps arbitrary: reg)
  case Nil
  then show ?case by simp
next
  case (Cons a ps)
  show ?case
    by (auto simp: Let_def case_prod_beta Cons.IH Set_delete_def intro!: filter_cong)
qed

lemma push_ports: "map post_port (snd (pushUpdateToPopup thr st)) = popupPorts st"
  by (simp add: pushUpdateToPopup_def Let_def case_prod_beta pushLoop_ports)

lemma push_threw: "map post_threw (snd (pushUpdateToPopup thr st)) = map thr (popupPorts st)"
  by (simp add: pushUpdateToPopup_def Let_def case_prod_beta pushLoop_threw)

lemma push_messages:
  "map post_message (snd (pushUpdateToPopup thr st)) =
     map (\<lambda>p. Update_media_tabs
                 (map (\<lambda>t. \<lparr> sent_entry = t, isPlaying = audible t \<rparr>)
                    (Map_values (audibleTabsMap st))))
       (popupPorts st)"
  by (simp add: pushUpdateToPopup_def Let_def case_prod_beta pushLoop_messages)

lemma push_registered:
  "popupPorts (fst (pushUpdateToPopup thr st)) = filter (\<lambda>p. \<not> thr p) (popupPorts st)"
  using pushLoop_registered [of thr _ "popupPorts st" "popupPorts st"]
  by (auto simp: pushUpdateToPopup_def Let_def case_prod_beta intro!: filter_cong)

lemma updateIcon_ports: "popupPorts (updateIconForMediaTabs clk st) = popupPorts st"
  by (simp add: updateIconForMediaTabs_def)

text \<open>
  A handler other than the connection listener either posts nothing or posts to every
  port registered when it starts, and registers no port.
\<close>

lemma step_posts:
  assumes "\<not> isConnect ev"
  shows "(snd (step thr ev st) = [] \<or> map post_port (snd (step thr ev st)) = popupPorts st) \<and>
         set (popupPorts (fst (step thr ev st))) \<subseteq> set (popupPorts st)"
proof (cases ev)
  case (Connect p)
  with assms show ?thesis by simp
next
  case (Disconnect p)
  then show ?thesis by (auto simp: onDisconnect_def Set_delete_def)
next
  case (CleanupTimer now)
  then show ?thesis by (simp add: onCleanupTimer_def)
next
  case (Startup tabs clk)
  then show ?thesis by (simp add: onStartup_def updateIcon_ports)
next
  case (WindowCreated clk)
  then show ?thesis by (simp add: updateIcon_ports)
next
  case (TabCreated now clk t)
  then show ?thesis
    by (auto simp: onCreated_def Let_def case_prod_beta push_ports push_registered updateIcon_ports)
next
  case (TabUpdated now clk tabId ci t)
  then show ?thesis
    by (auto simp: onUpdated_def Let_def case_prod_beta push_ports push_registered updateIcon_ports)
next
  case (TabRemoved clk tabId)
  then show ?thesis
    by (auto simp: onRemoved_def push_ports push_registered updateIcon_ports)
next
  case (GetMediaTabs clk)
  then show ?thesis by (simp add: get_media_tabs_def Let_def case_prod_beta)
next
  case (TogglePlayPause now tabId)
  then show ?thesis by (simp add: onTogglePlayPause_def split: option.splits)
next
  case (TogglePlayPauseResult now tabId result)
  then show ?thesis
    by (auto simp: onTogglePlayPauseResult_def push_ports push_registered split: option.splits)
next
  case (ToggleMuteResult tabId isMuted)
  then show ?thesis
    by (auto simp: onToggleMuteResult_def push_ports push_registered split: option.splits)
next
  case (SkipTrackTab now t)
  then show ?thesis by (simp add: onSkipTrackTab_def)
next
  case (SkipTrackUpdatedTab tabId newTitle newUrl)
  then show ?thesis
    by (auto simp: onSkipTrackUpdatedTab_def Let_def push_ports push_registered)
qed

lemma step_keeps_out:
  assumes "p \<notin> set (popupPorts st)" and "ev \<noteq> Connect p"
  shows "p \<notin> set (popupPorts (fst (step thr ev st))) \<and>
         p \<notin> set (map post_port (snd (step thr ev st)))"
proof (cases "isConnect ev")
  case True
  then obtain q where "ev = Connect q" by (cases ev) auto
  with assms show ?thesis by (auto simp: onConnect_def Set_add_def)
next
  case False
  from step_posts [OF False, of thr st] assms(1) show ?thesis
    by (metis (no_types, lifting) empty_iff list.map(1) list.set(1) subsetD)
qed

lemma run_keeps_out:
  "p \<notin> set (popupPorts st) \<Longrightarrow> \<forall>e \<in> set evs. snd e \<noteq> Connect p \<Longrightarrow>
   p \<notin> set (map post_port (snd (run evs st)))"
proof (induction evs arbitrary: st)
  case Nil
  then show ?case by simp
next
  case (Cons e evs)
  have s: "p \<notin> set (popupPorts (fst (step (fst e) (snd e) st)))"
          "p \<notin> set (map post_port (snd (step (fst e) (snd e) st)))"
    using step_keeps_out [of p st "snd e" "fst e"] Cons.prems by auto
  have "p \<notin> set (map post_port (snd (run evs (fst (step (fst e) (snd e) st)))))"
    using Cons.IH [OF s(1)] Cons.prems(2) by simp
  with s(2) show ?case
    by (auto simp: Let_def case_prod_beta)
qed

text \<open>
  The pushes that a tab event triggers come after \<^verbatim>\<open>updateIconForMediaTabs\<close>, hence
  after an eviction: they carry no entry that the eviction's reading of the clock finds
  due.
\<close>

lemma push_message_of:
  assumes "q \<in> set (snd (pushUpdateToPopup thr st))"
  shows "post_message q =
     Update_media_tabs (map (\<lambda>t. \<lparr> sent_entry = t, isPlaying = audible t \<rparr>)
                          (Map_values (audibleTabsMap st)))"
proof -
  from assms have "post_message q \<in> set (map post_message (snd (pushUpdateToPopup thr st)))"
    by simp
  then show ?thesis
    unfolding push_messages by auto
qed

lemma updateIcon_fresh:
  assumes "distinct (map fst (audibleTabsMap st))"
    and "e \<in> set (Map_values (audibleTabsMap (updateIconForMediaTabs clk st)))"
  shows "\<not> stale (cleanupNow clk) e"
  using assms
  by (auto simp: updateIconForMediaTabs_def getAudibleTabs_result(2) Map_values_def)

lemma onCreated_push_fresh:
  assumes inv: "cacheInv (audibleTabsMap st)"
    and q: "q \<in> set (snd (onCreated now clk thr t st))"
    and msg: "post_message q = Update_media_tabs tabs"
    and x: "x \<in> set tabs"
  shows "\<not> stale (cleanupNow clk) (sent_entry x)"
proof -
  let ?m = "snd (upsertFromTab now (Some t) (audibleTabsMap st))"
  let ?st1 = "st \<lparr> audibleTabsMap := ?m \<rparr>"
  have d: "distinct (map fst (audibleTabsMap ?st1))"
    using cacheInv_upsert [OF inv, of now "Some t"] by (simp add: cacheInv_def)
  from q have q': "q \<in> set (snd (pushUpdateToPopup thr (updateIconForMediaTabs clk ?st1)))"
    by (auto simp: onCreated_def Let_def case_prod_beta split: if_splits)
  from push_message_of [OF q'] msg x
  obtain e where e: "e \<in> set (Map_values (audibleTabsMap (updateIconForMediaTabs clk ?st1)))"
    and xe: "sent_entry x = e"
    by auto
  from updateIcon_fresh [OF d e] xe show ?thesis by simp
qed

text \<open>
  C7, as the code has it. Every push posts to every port registered at that moment, in
  order, each with the same snapshot; a port whose \<^verbatim>\<open>postMessage\<close> throws is dropped
  from the registry and the ports after it are still posted to. Every handler other than
  the connection listener either posts nothing or pushes to every registered port: the
  handlers of a created, updated or removed tab push when they change the cache, and so
  do the completions of \<^verbatim>\<open>toggle_mute\<close>, \<^verbatim>\<open>toggle_play_pause\<close> and
  \<^verbatim>\<open>skip_track\<close> when they write the cache; the cleanup timer, the evictions inside
  \<^verbatim>\<open>getAudibleTabs\<close>, the start-up upserts, the arrival of
  \<^verbatim>\<open>toggle_play_pause\<close> and the first upsert of \<^verbatim>\<open>skip_track\<close> post nothing. A
  disconnected port is no longer registered, and no later event posts to it unless it
  connects again.
\<close>

theorem push_reaches_every_registered_port:
  "map post_port (snd (pushUpdateToPopup thr st)) = popupPorts st \<and>
   map post_threw (snd (pushUpdateToPopup thr st)) = map thr (popupPorts st) \<and>
   map post_message (snd (pushUpdateToPopup thr st)) =
     map (\<lambda>p. Update_media_tabs
                 (map (\<lambda>t. \<lparr> sent_entry = t, isPlaying = audible t \<rparr>)
                    (Map_values (audibleTabsMap st))))
       (popupPorts st) \<and>
   popupPorts (fst (pushUpdateToPopup thr st)) = filter (\<lambda>p. \<not> thr p) (popupPorts st) \<and>
   (\<not> isConnect ev \<longrightarrow>
      snd (step thr ev st) = [] \<or> map post_port (snd (step thr ev st)) = popupPorts st) \<and>
   (truthy (fst (upsertFromTab now (Some t) (audibleTabsMap st))) \<longrightarrow>
      map post_port (snd (onCreated now clk thr t st)) = popupPorts st) \<and>
   (Map_has i (audibleTabsMap st) \<longrightarrow>
      map post_port (snd (onRemoved clk thr i st)) = popupPorts st \<and>
      map post_port (snd (onToggleMuteResult thr i isMuted st)) = popupPorts st \<and>
      map post_port (snd (onTogglePlayPauseResult thr now i (Some playing) st)) = popupPorts st) \<and>
   (has_audible ci \<and> fst (upsertFromTab now (Some t) (audibleTabsMap st)) \<noteq> JFalse \<longrightarrow>
      map post_port (snd (onUpdated now clk thr i ci t st)) = popupPorts st) \<and>
   (\<not> has_audible ci \<and> Map_get i (audibleTabsMap st) = Some e \<and> reflectMetadata ci t e \<noteq> e \<longrightarrow>
      map post_port (snd (onUpdated now clk thr i ci t st)) = popupPorts st) \<and>
   map post_port (snd (onSkipTrackUpdatedTab thr i newTitle newUrl st)) = popupPorts st \<and>
   snd (onCleanupTimer now st) = [] \<and>
   snd (step thr (GetMediaTabs clk) st) = [] \<and>
   snd (step thr (WindowCreated clk) st) = [] \<and>
   snd (onStartup tabs clk st) = [] \<and>
   snd (onTogglePlayPause now i st) = [] \<and>
   snd (onSkipTrackTab now t st) = [] \<and>
   p \<notin> set (popupPorts (onDisconnect p st)) \<and>
   ((\<forall>e \<in> set evs. snd e \<noteq> Connect p) \<longrightarrow>
      p \<notin> set (map post_port (snd (run evs (onDisconnect p st)))))"
proof -
  have out: "p \<notin> set (popupPorts (onDisconnect p st))"
    by (simp add: onDisconnect_def Set_delete_def)
  have created: "truthy (fst (upsertFromTab now (Some t) (audibleTabsMap st))) \<Longrightarrow>
      map post_port (snd (onCreated now clk thr t st)) = popupPorts st"
    by (simp add: onCreated_def Let_def case_prod_beta push_ports updateIcon_ports)
  have cached: "Map_has i (audibleTabsMap st) \<Longrightarrow>
      map post_port (snd (onRemoved clk thr i st)) = popupPorts st \<and>
      map post_port (snd (onToggleMuteResult thr i isMuted st)) = popupPorts st \<and>
      map post_port (snd (onTogglePlayPauseResult thr now i (Some playing) st)) = popupPorts st"
    by (auto simp: onRemoved_def onToggleMuteResult_def onTogglePlayPauseResult_def push_ports
        updateIcon_ports Map_has_get split: option.splits)
  have updated: "has_audible ci \<and> fst (upsertFromTab now (Some t) (audibleTabsMap st)) \<noteq> JFalse \<Longrightarrow>
      map post_port (snd (onUpdated now clk thr i ci t st)) = popupPorts st"
    "\<not> has_audible ci \<and> Map_get i (audibleTabsMap st) = Some e \<and> reflectMetadata ci t e \<noteq> e \<Longrightarrow>
      map post_port (snd (onUpdated now clk thr i ci t st)) = popupPorts st"
    by (simp_all add: onUpdated_def Let_def case_prod_beta push_ports updateIcon_ports)
  have skip: "map post_port (snd (onSkipTrackUpdatedTab thr i newTitle newUrl st)) = popupPorts st"
    by (simp add: onSkipTrackUpdatedTab_def Let_def push_ports)
  have silent: "snd (step thr (GetMediaTabs clk) st) = []" "snd (step thr (WindowCreated clk) st) = []"
    by simp_all
  have quiet: "snd (onCleanupTimer now st) = []" "snd (onStartup tabs clk st) = []"
    "snd (onTogglePlayPause now i st) = []" "snd (onSkipTrackTab now t st) = []"
    by (simp_all add: onCleanupTimer_def onStartup_def onTogglePlayPause_def onSkipTrackTab_def
        split: option.splits)
  have any: "\<not> isConnect ev \<Longrightarrow>
      snd (step thr ev st) = [] \<or> map post_port (snd (step thr ev st)) = popupPorts st"
    using step_posts [of ev thr st] by blast
  show ?thesis
    using push_ports [of thr st] push_threw [of thr st] push_messages [of thr st]
      push_registered [of thr st] any created cached updated skip silent quiet out
      run_keeps_out [OF out]
    by blast
qed

theorem push_reaches_every_registered_port_witness:
  "map post_port (snd (pushUpdateToPopup (\<lambda>p. p = deadPort) portState)) =
     [popupPort, deadPort, otherPort] \<and>
   map post_threw (snd (pushUpdateToPopup (\<lambda>p. p = deadPort) portState)) = [False, True, False] \<and>
   popupPorts (fst (pushUpdateToPopup (\<lambda>p. p = deadPort) portState)) = [popupPort, otherPort] \<and>
   map post_port (snd (onCreated 9 (steadyClock 9) (\<lambda>p. p = deadPort) songTab portState)) =
     [popupPort, deadPort, otherPort] \<and>
   map post_port (snd (onRemoved (steadyClock 9) (\<lambda>p. p = deadPort) 42 portState)) =
     [popupPort, deadPort, otherPort] \<and>
   map post_port (snd (step (\<lambda>p. p = deadPort) (ToggleMuteResult 42 True) portState)) =
     [popupPort, deadPort, otherPort] \<and>
   otherPort \<notin> set (map post_port (snd (run
      [(\<lambda>p. p = deadPort, TabCreated 9 (steadyClock 9) songTab), (\<lambda>p. False, Connect deadPort),
       (\<lambda>p. False, CleanupTimer 10), (\<lambda>p. False, ToggleMuteResult 42 True),
       (\<lambda>p. False, TabRemoved (steadyClock 12) 42)]
      (onDisconnect otherPort portState))))"
proof -
  have a: "truthy (fst (upsertFromTab 9 (Some songTab) (audibleTabsMap portState)))"
    by (simp add: upsertFromTab_def songTab_def portState_def truthy_def)
  have b: "\<forall>e \<in> set [(\<lambda>p. p = deadPort, TabCreated 9 (steadyClock 9) songTab),
       (\<lambda>p. False, Connect deadPort), (\<lambda>p. False, CleanupTimer 10),
       (\<lambda>p. False, ToggleMuteResult 42 True),
       (\<lambda>p. False, TabRemoved (steadyClock 12) 42)]. snd e \<noteq> Connect otherPort"
    by (simp add: deadPort_def otherPort_def)
  have c: "Map_has 42 (audibleTabsMap portState)"
    by (simp add: portState_def)
  have d: "\<not> isConnect (ToggleMuteResult 42 True)" by simp
  have e: "snd (step (\<lambda>p. p = deadPort) (ToggleMuteResult 42 True) portState) \<noteq> []"
    by (simp add: onToggleMuteResult_def pushUpdateToPopup_def portState_def case_prod_beta
        Let_def)
  show ?thesis
    using push_reaches_every_registered_port [where thr = "\<lambda>p. p = deadPort" and st = portState
        and ev = "ToggleMuteResult 42 True" and now = 9 and clk = "steadyClock 9"
        and t = songTab and i = 42 and p = otherPort
        and evs = "[(\<lambda>p. p = deadPort, TabCreated 9 (steadyClock 9) songTab),
          (\<lambda>p. False, Connect deadPort), (\<lambda>p. False, CleanupTimer 10),
          (\<lambda>p. False, ToggleMuteResult 42 True),
          (\<lambda>p. False, TabRemoved (steadyClock 12) 42)]"] a b c d e
    by (simp add: portState_def popupPort_def deadPort_def otherPort_def)
qed

text \<open>
  C7 as stated fails: with a popup connected, the cleanup timer evicts an entry from the
  cache and posts nothing.
\<close>

theorem cleanup_timer_changes_cache_without_push:
  "popupPorts mutedState = [popupPort] \<and>
   audibleTabsMap mutedState = [(7, staleEntry), (42, songEntry)] \<and>
   onCleanupTimer 1800000 mutedState =
     (mutedState \<lparr> audibleTabsMap := [(42, songEntry)] \<rparr>, [])"
  by (simp add: onCleanupTimer_def cleanupOldTabs_def mutedState_def staleEntry_def songEntry_def
      jsTrue_def TAB_RETENTION_MS_def)

section \<open>Properties of the skip resolver\<close>

subsection \<open>The strategies one by one\<close>

lemma find_Some_member: "find P xs = Some x \<Longrightarrow> x \<in> set xs \<and> P x"
  by (induction xs) (auto split: if_splits)

lemma findVisibleButton_None: "(findVisibleButton pg sels = None) = noVisibleButton pg sels"
  by (induction sels)
     (auto simp: noVisibleButton_def find_None_iff split: option.splits dest: find_Some_member)

lemma findVisibleButton_Some:
  "findVisibleButton pg sels = Some b \<Longrightarrow>
   \<exists>pre s0 post. sels = pre @ s0 # post \<and> noVisibleButton pg pre \<and>
      find isVisible (querySelectorAll pg s0) = Some b"
proof (induction sels)
  case Nil
  then show ?case by simp
next
  case (Cons s sels)
  show ?case
  proof (cases "find isVisible (querySelectorAll pg s)")
    case None
    with Cons.prems have "findVisibleButton pg sels = Some b" by simp
    from Cons.IH [OF this] obtain pre s0 post where
      h: "sels = pre @ s0 # post" "noVisibleButton pg pre"
         "find isVisible (querySelectorAll pg s0) = Some b" by blast
    have "noVisibleButton pg (s # pre)"
      using h(2) None by (auto simp: noVisibleButton_def find_None_iff)
    with h show ?thesis
      by (metis append_Cons)
  next
    case (Some a)
    with Cons.prems have "a = b" by simp
    with Some have "s # sels = [] @ s # sels" "noVisibleButton pg []"
      "find isVisible (querySelectorAll pg s) = Some b"
      by (simp_all add: noVisibleButton_def)
    then show ?thesis by blast
  qed
qed

lemma findFirstMatchVisible_None:
  "noVisibleButton pg sels \<Longrightarrow> findFirstMatchVisible pg sels = None"
  by (induction sels) (auto simp: noVisibleButton_def split: list.splits)

lemma sessionSkip_result:
  "fst (sessionSkip ms a) =
     (if setActionHandler_throws ms a \<or> session_dispatch_throws ms a then None
      else Some (Success ''media-session''))"
  by (simp add: sessionSkip_def)

lemma tryMediaSession_result:
  "fst (tryMediaSession isNext pg) =
     (if sessionFails isNext pg then None else Some (Success ''media-session''))"
  by (cases isNext)
     (auto simp: tryMediaSession_def sessionFails_def sessionAction_def sessionSkip_result
        split: option.splits)

lemma playersLoop_None:
  "(fst (playersLoop isNext ps) = None) = (\<forall>pl. Some pl \<in> set ps \<longrightarrow> \<not> playerSkips isNext pl)"
  by (induction isNext ps rule: playersLoop.induct)
     (auto simp: playerSkips_def case_prod_beta Let_def)

lemma playersLoop_Some:
  "fst (playersLoop isNext ps) = Some r \<Longrightarrow>
   r = Success (if isNext then ''player-api-next'' else ''player-api-prev'')"
  by (induction isNext ps rule: playersLoop.induct)
     (auto simp: case_prod_beta Let_def split: if_splits)

lemma tryPlayers_None: "(fst (tryPlayers isNext pg) = None) = playersFail isNext pg"
  by (auto simp: tryPlayers_def playersFail_def candidatePlayers_def playersLoop_None
      split: option.splits outcome.splits)

lemma tryPlayers_Some:
  "fst (tryPlayers isNext pg) = Some r \<Longrightarrow>
   r = Success (if isNext then ''player-api-next'' else ''player-api-prev'')"
  by (auto simp: tryPlayers_def split: option.splits outcome.splits dest: playersLoop_Some)

lemma dispatchLoop_result:
  "dispatchLoop pg key code ts s =
     (s \<or> (\<exists>t \<in> set ts. \<not> dispatch_throws pg t), map (\<lambda>t. KeyDispatch t key code) ts)"
  by (induction ts arbitrary: s) (auto simp: Let_def)

lemma tryKeyboard_result:
  "tryKeyboard isNext pg =
     (if keyboardFails pg then None else Some (Success ''keyboard-events''), keyEvents isNext)"
  by (auto simp: tryKeyboard_def Let_def dispatchLoop_result keyboardFails_def keyEvents_def)

lemma keyboardOrFail_result:
  "keyboardOrFail isNext pg before =
     (if keyboardFails pg then notFound else Success ''keyboard-events'', before @ keyEvents isNext)"
  by (simp add: keyboardOrFail_def tryKeyboard_result)

subsection \<open>The chain\<close>

lemma skipTrack0_no_button:
  assumes "noVisibleButton pg (buttonSelectors0 (d = ''next''))"
  shows "skipTrack0 d pg =
    (if \<not> sessionFails (d = ''next'') pg then (Success ''media-session'', snd (tryMediaSession (d = ''next'') pg))
     else if \<not> playersFail (d = ''next'') pg then
       (Success (if d = ''next'' then ''player-api-next'' else ''player-api-prev''),
        snd (tryMediaSession (d = ''next'') pg) @ snd (tryPlayers (d = ''next'') pg))
     else
       (if keyboardFails pg then notFound else Success ''keyboard-events'',
        snd (tryMediaSession (d = ''next'') pg) @ snd (tryPlayers (d = ''next'') pg) @
        keyEvents (d = ''next'')))"
proof -
  have b: "findVisibleButton pg (buttonSelectors0 (d = ''next'')) = None"
    using assms by (simp add: findVisibleButton_None)
  obtain r2 e2 where s: "tryMediaSession (d = ''next'') pg = (r2, e2)" by (cases "tryMediaSession (d = ''next'') pg")
  obtain r3 e3 where p: "tryPlayers (d = ''next'') pg = (r3, e3)" by (cases "tryPlayers (d = ''next'') pg")
  have r2: "r2 = (if sessionFails (d = ''next'') pg then None else Some (Success ''media-session''))"
    using tryMediaSession_result [of "d = ''next''" pg] s by simp
  have r3: "(r3 = None) = playersFail (d = ''next'') pg"
    using tryPlayers_None [of "d = ''next''" pg] p by simp
  have r3': "\<And>r. r3 = Some r \<Longrightarrow> r = Success (if d = ''next'' then ''player-api-next'' else ''player-api-prev'')"
    using tryPlayers_Some [of "d = ''next''" pg] p by simp
  show ?thesis
    unfolding skipTrack0_def Let_def b s p
    using r2 r3 r3' by (cases r3) (auto simp: keyboardOrFail_result)
qed

lemma resolve1_no_button:
  assumes "noVisibleButton pg sels"
  shows "resolve1 isNext sels pg =
    (if \<not> sessionFails isNext pg then (Success ''media-session'', snd (tryMediaSession isNext pg))
     else if \<not> playersFail isNext pg then
       (Success (if isNext then ''player-api-next'' else ''player-api-prev''),
        snd (tryMediaSession isNext pg) @ snd (tryPlayers isNext pg))
     else
       (if keyboardFails pg then notFound else Success ''keyboard-events'',
        snd (tryMediaSession isNext pg) @ snd (tryPlayers isNext pg) @ keyEvents isNext))"
proof -
  have b: "findVisibleButton pg sels = None"
    using assms by (simp add: findVisibleButton_None)
  have b': "findFirstMatchVisible pg sels = None"
    using assms by (rule findFirstMatchVisible_None)
  obtain r2 e2 where s: "tryMediaSession isNext pg = (r2, e2)" by (cases "tryMediaSession isNext pg")
  obtain r3 e3 where p: "tryPlayers isNext pg = (r3, e3)" by (cases "tryPlayers isNext pg")
  have r2: "r2 = (if sessionFails isNext pg then None else Some (Success ''media-session''))"
    using tryMediaSession_result [of isNext pg] s by simp
  have r3: "(r3 = None) = playersFail isNext pg"
    using tryPlayers_None [of isNext pg] p by simp
  have r3': "\<And>r. r3 = Some r \<Longrightarrow> r = Success (if isNext then ''player-api-next'' else ''player-api-prev'')"
    using tryPlayers_Some [of isNext pg] p by simp
  show ?thesis
    unfolding resolve1_def Let_def b b' s p
    using r2 r3 r3' by (cases r3) (auto simp: keyboardOrFail_result)
qed

lemma skipTrack0_button:
  "findVisibleButton pg (buttonSelectors0 (d = ''next'')) = Some b \<Longrightarrow>
   skipTrack0 d pg = (Success ''button-click'', [Click b])"
  by (simp add: skipTrack0_def)

lemma resolve1_button:
  "findVisibleButton pg sels = Some b \<Longrightarrow>
   resolve1 isNext sels pg = (Success ''button-click'', [Click b])"
  by (simp add: resolve1_def)

lemma skipTrack1_resolve:
  "commonButtonSelectors d = Inr sels \<Longrightarrow>
   skipTrack1 d pg = (Inr (fst (resolve1 (d = ''next'') sels pg)), snd (resolve1 (d = ''next'') sels pg))"
  by (simp add: skipTrack1_def case_prod_beta)

lemma visible_found:
  "s \<in> set sels \<Longrightarrow> b \<in> set (querySelectorAll pg s) \<Longrightarrow> isVisible b \<Longrightarrow>
   \<exists>pre s0 post b0. sels = pre @ s0 # post \<and> noVisibleButton pg pre \<and>
      find isVisible (querySelectorAll pg s0) = Some b0 \<and> findVisibleButton pg sels = Some b0"
proof -
  assume "s \<in> set sels" "b \<in> set (querySelectorAll pg s)" "isVisible b"
  then have "\<not> noVisibleButton pg sels" by (auto simp: noVisibleButton_def)
  then obtain b0 where f: "findVisibleButton pg sels = Some b0"
    by (auto simp: findVisibleButton_None [symmetric])
  from findVisibleButton_Some [OF f] f show ?thesis by blast
qed

subsection \<open>The sample pages\<close>

lemma isVisible_visibleButton: "isVisible (visibleButton n)"
  by (simp add: isVisible_def visibleButton_def)

lemma not_isVisible_hiddenButton: "\<not> isVisible (hiddenButton n)"
  by (simp add: isVisible_def hiddenButton_def)

lemma emptyPage_fields:
  "querySelectorAll emptyPage = (\<lambda>s. [])" "mediaSession emptyPage = None"
  "videojs_getPlayers emptyPage = None" "windowGlobal emptyPage = (\<lambda>n. None)"
  "dispatch_throws emptyPage = (\<lambda>t. False)"
  by (simp_all add: emptyPage_def)

lemma nextPage_qsa:
  "querySelectorAll nextPage =
     (\<lambda>s. if s = ''.ytp-next-button'' then [hiddenButton 1, visibleButton 2]
          else if s = ''.next'' then [visibleButton 3] else [])"
  by (simp add: nextPage_def)

lemma prevPage_qsa:
  "querySelectorAll prevPage = (\<lambda>s. if s = ''.ytp-prev-button'' then [visibleButton 4] else [])"
  "mediaSession prevPage = None" "videojs_getPlayers prevPage = None"
  "windowGlobal prevPage = (\<lambda>n. None)" "dispatch_throws prevPage = (\<lambda>t. False)"
  by (simp_all add: prevPage_def emptyPage_def)

lemma unfocusedPage_fields:
  "querySelectorAll unfocusedPage = (\<lambda>s. [])"
  "mediaSession unfocusedPage = Some \<lparr> has_setActionHandler = True,
                              setActionHandler_throws = (\<lambda>a. False),
                              session_dispatch_throws = (\<lambda>a. True) \<rparr>"
  "videojs_getPlayers unfocusedPage = Some (Returns [None])"
  "windowGlobal unfocusedPage = (\<lambda>n. None)"
  "dispatch_throws unfocusedPage = (\<lambda>t. t = Document \<or> t = ActiveElement)"
  by (simp_all add: unfocusedPage_def emptyPage_def)

lemma pushCommonPlayers_none: "windowGlobal pg = (\<lambda>n. None) \<Longrightarrow> pushCommonPlayers pg names = []"
  by (induction names) auto

lemma deafPage_fails: "allStrategiesFail isNext sels deafPage"
  by (simp add: allStrategiesFail_def noVisibleButton_def sessionFails_def playersFail_def
      keyboardFails_def candidatePlayers_def deafPage_def emptyPage_fields pushCommonPlayers_none)

subsection \<open>The claims about skipTrack\<close>

text \<open>
  C4. When some selector of the resolver's list for the direction has a visible match,
  \<^verbatim>\<open>skipTrack\<close> returns \<^verbatim>\<open>{success: true, method: 'button-click'}\<close>; its only
  effect on the page is one click, on the first visible match of the first selector, in
  list order, that has a visible match; no media-session, player or keyboard action is
  attempted. This holds for both versions, each with its own selector list.
\<close>

theorem visible_button_is_clicked_first:
  "(s \<in> set (buttonSelectors0 (d = ''next'')) \<and> b \<in> set (querySelectorAll pg s) \<and> isVisible b \<longrightarrow>
      (\<exists>pre s0 post b0.
         buttonSelectors0 (d = ''next'') = pre @ s0 # post \<and> noVisibleButton pg pre \<and>
         find isVisible (querySelectorAll pg s0) = Some b0 \<and>
         skipTrack0 d pg = (Success ''button-click'', [Click b0]))) \<and>
   (commonButtonSelectors d = Inr sels \<and>
    s \<in> set sels \<and> b \<in> set (querySelectorAll pg s) \<and> isVisible b \<longrightarrow>
      (\<exists>pre s0 post b0.
         sels = pre @ s0 # post \<and> noVisibleButton pg pre \<and>
         find isVisible (querySelectorAll pg s0) = Some b0 \<and>
         skipTrack1 d pg = (Inr (Success ''button-click''), [Click b0])))"
proof (intro conjI impI)
  assume "s \<in> set (buttonSelectors0 (d = ''next'')) \<and> b \<in> set (querySelectorAll pg s) \<and> isVisible b"
  then obtain pre s0 post b0 where
    h: "buttonSelectors0 (d = ''next'') = pre @ s0 # post" "noVisibleButton pg pre"
       "find isVisible (querySelectorAll pg s0) = Some b0"
       "findVisibleButton pg (buttonSelectors0 (d = ''next'')) = Some b0"
    using visible_found [of s "buttonSelectors0 (d = ''next'')" b pg] by blast
  from skipTrack0_button [OF h(4)] h(1,2,3)
  show "\<exists>pre s0 post b0.
         buttonSelectors0 (d = ''next'') = pre @ s0 # post \<and> noVisibleButton pg pre \<and>
         find isVisible (querySelectorAll pg s0) = Some b0 \<and>
         skipTrack0 d pg = (Success ''button-click'', [Click b0])"
    by blast
next
  assume a: "commonButtonSelectors d = Inr sels \<and>
    s \<in> set sels \<and> b \<in> set (querySelectorAll pg s) \<and> isVisible b"
  then obtain pre s0 post b0 where
    h: "sels = pre @ s0 # post" "noVisibleButton pg pre"
       "find isVisible (querySelectorAll pg s0) = Some b0"
       "findVisibleButton pg sels = Some b0"
    using visible_found [of s sels b pg] by blast
  have "skipTrack1 d pg = (Inr (Success ''button-click''), [Click b0])"
    using a skipTrack1_resolve [of d sels pg] resolve1_button [OF h(4), of "d = ''next''"] by simp
  with h(1,2,3)
  show "\<exists>pre s0 post b0.
         sels = pre @ s0 # post \<and> noVisibleButton pg pre \<and>
         find isVisible (querySelectorAll pg s0) = Some b0 \<and>
         skipTrack1 d pg = (Inr (Success ''button-click''), [Click b0])"
    by blast
qed

theorem visible_button_is_clicked_first_witness:
  "''.ytp-next-button'' \<in> set (buttonSelectors0 (''next'' = ''next'')) \<and>
   visibleButton 2 \<in> set (querySelectorAll nextPage ''.ytp-next-button'') \<and>
   isVisible (visibleButton 2) \<and>
   skipTrack0 ''next'' nextPage = (Success ''button-click'', [Click (visibleButton 3)]) \<and>
   skipTrack1 ''next'' nextPage = (Inr (Success ''button-click''), [Click (visibleButton 2)])"
proof -
  have a: "''.ytp-next-button'' \<in> set (buttonSelectors0 (''next'' = ''next''))"
    by (simp add: buttonSelectors0_def)
  have b: "visibleButton 2 \<in> set (querySelectorAll nextPage ''.ytp-next-button'')"
    by (simp add: nextPage_qsa)
  have c: "commonButtonSelectors ''next'' = Inr commonButtonSelectors_next"
    by (simp add: commonButtonSelectors_def)
  have d: "''.ytp-next-button'' \<in> set commonButtonSelectors_next"
    by (simp add: commonButtonSelectors_next_def)
  have e0: "skipTrack0 ''next'' nextPage = (Success ''button-click'', [Click (visibleButton 3)])"
    by (simp add: skipTrack0_def buttonSelectors0_def nextPage_qsa isVisible_visibleButton)
  have e1: "skipTrack1 ''next'' nextPage = (Inr (Success ''button-click''), [Click (visibleButton 2)])"
    by (simp add: skipTrack1_def c commonButtonSelectors_next_def resolve1_def nextPage_qsa
        isVisible_visibleButton not_isVisible_hiddenButton)
  show ?thesis
    using visible_button_is_clicked_first [of "''.ytp-next-button''" "''next''" "visibleButton 2" nextPage
        commonButtonSelectors_next]
      a b c d isVisible_visibleButton [of 2] e0 e1
    by simp
qed

text \<open>
  C5. When every strategy finds nothing, \<^verbatim>\<open>skipTrack\<close> returns
  \<^verbatim>\<open>{success: false, error: 'No supported track skipping method found on this page',
  methodsTried: ['button-click', 'media-session', 'player-api', 'keyboard-events']}\<close>;
  and when some strategy does not fail the result is a success. This holds for both
  versions (for the later one, whenever the selector lookup gives a list).
\<close>

theorem exhausted_strategies_give_notFound:
  "(allStrategiesFail (d = ''next'') (buttonSelectors0 (d = ''next'')) pg \<longrightarrow>
      fst (skipTrack0 d pg) =
        Failure ''No supported track skipping method found on this page''
          [''button-click'', ''media-session'', ''player-api'', ''keyboard-events'']) \<and>
   (\<not> allStrategiesFail (d = ''next'') (buttonSelectors0 (d = ''next'')) pg \<longrightarrow>
      (\<exists>method. fst (skipTrack0 d pg) = Success method)) \<and>
   (commonButtonSelectors d = Inr sels \<and> allStrategiesFail (d = ''next'') sels pg \<longrightarrow>
      fst (skipTrack1 d pg) =
        Inr (Failure ''No supported track skipping method found on this page''
               [''button-click'', ''media-session'', ''player-api'', ''keyboard-events''])) \<and>
   (commonButtonSelectors d = Inr sels \<and> \<not> allStrategiesFail (d = ''next'') sels pg \<longrightarrow>
      (\<exists>method. fst (skipTrack1 d pg) = Inr (Success method)))"
proof -
  have old: "fst (skipTrack0 d pg) =
      (if allStrategiesFail (d = ''next'') (buttonSelectors0 (d = ''next'')) pg then notFound
       else if \<not> noVisibleButton pg (buttonSelectors0 (d = ''next'')) then Success ''button-click''
       else if \<not> sessionFails (d = ''next'') pg then Success ''media-session''
       else if \<not> playersFail (d = ''next'') pg then
         Success (if d = ''next'' then ''player-api-next'' else ''player-api-prev'')
       else Success ''keyboard-events'')"
  proof (cases "noVisibleButton pg (buttonSelectors0 (d = ''next''))")
    case True
    then show ?thesis
      by (simp add: skipTrack0_no_button allStrategiesFail_def)
  next
    case False
    then obtain b where "findVisibleButton pg (buttonSelectors0 (d = ''next'')) = Some b"
      by (auto simp: findVisibleButton_None [symmetric])
    with False show ?thesis
      by (simp add: skipTrack0_button allStrategiesFail_def)
  qed
  have new: "\<And>sels. fst (resolve1 (d = ''next'') sels pg) =
      (if allStrategiesFail (d = ''next'') sels pg then notFound
       else if \<not> noVisibleButton pg sels then Success ''button-click''
       else if \<not> sessionFails (d = ''next'') pg then Success ''media-session''
       else if \<not> playersFail (d = ''next'') pg then
         Success (if d = ''next'' then ''player-api-next'' else ''player-api-prev'')
       else Success ''keyboard-events'')"
  proof -
    fix sels
    show "fst (resolve1 (d = ''next'') sels pg) =
      (if allStrategiesFail (d = ''next'') sels pg then notFound
       else if \<not> noVisibleButton pg sels then Success ''button-click''
       else if \<not> sessionFails (d = ''next'') pg then Success ''media-session''
       else if \<not> playersFail (d = ''next'') pg then
         Success (if d = ''next'' then ''player-api-next'' else ''player-api-prev'')
       else Success ''keyboard-events'')"
    proof (cases "noVisibleButton pg sels")
      case True
      then show ?thesis
        by (simp add: resolve1_no_button allStrategiesFail_def)
    next
      case False
      then obtain b where "findVisibleButton pg sels = Some b"
        by (auto simp: findVisibleButton_None [symmetric])
      with False show ?thesis
        by (simp add: resolve1_button allStrategiesFail_def)
    qed
  qed
  have new1: "commonButtonSelectors d = Inr sels \<Longrightarrow>
      fst (skipTrack1 d pg) = Inr (fst (resolve1 (d = ''next'') sels pg))"
    by (simp add: skipTrack1_resolve)
  show ?thesis
    unfolding notFound_def [symmetric]
    using old new [of sels] new1 by (auto simp: notFound_def)
qed

theorem exhausted_strategies_give_notFound_witness:
  "allStrategiesFail (''prev'' = ''next'') (buttonSelectors0 (''prev'' = ''next'')) deafPage \<and>
   fst (skipTrack0 ''prev'' deafPage) =
     Failure ''No supported track skipping method found on this page''
       [''button-click'', ''media-session'', ''player-api'', ''keyboard-events''] \<and>
   commonButtonSelectors ''prev'' = Inr commonButtonSelectors_prev \<and>
   allStrategiesFail (''prev'' = ''next'') commonButtonSelectors_prev deafPage \<and>
   fst (skipTrack1 ''prev'' deafPage) =
     Inr (Failure ''No supported track skipping method found on this page''
            [''button-click'', ''media-session'', ''player-api'', ''keyboard-events'']) \<and>
   \<not> allStrategiesFail (''next'' = ''next'') (buttonSelectors0 (''next'' = ''next'')) emptyPage \<and>
   fst (skipTrack0 ''next'' emptyPage) = Success ''keyboard-events''"
proof -
  have c: "commonButtonSelectors ''prev'' = Inr commonButtonSelectors_prev"
    by (simp add: commonButtonSelectors_def)
  have n: "\<not> allStrategiesFail (''next'' = ''next'') (buttonSelectors0 (''next'' = ''next'')) emptyPage"
    by (simp add: allStrategiesFail_def keyboardFails_def emptyPage_fields)
  have e: "fst (skipTrack0 ''next'' emptyPage) = Success ''keyboard-events''"
    by (simp add: skipTrack0_no_button noVisibleButton_def sessionFails_def playersFail_def
        keyboardFails_def candidatePlayers_def emptyPage_fields pushCommonPlayers_none)
  show ?thesis
    using exhausted_strategies_give_notFound [of "''prev''" deafPage commonButtonSelectors_prev]
      exhausted_strategies_give_notFound [of "''next''" emptyPage commonButtonSelectors_next]
      deafPage_fails [of "''prev'' = ''next''" "buttonSelectors0 (''prev'' = ''next'')"]
      deafPage_fails [of "''prev'' = ''next''" commonButtonSelectors_prev] c n e
    by simp
qed

text \<open>
  C6. The keyboard block dispatches the event to the document, the window and the
  active element, in this order, whether or not an earlier dispatch throws, and it
  succeeds exactly when at least one of the three dispatches does not throw. In both
  versions, when the earlier strategies have found nothing, the effects of
  \<^verbatim>\<open>skipTrack\<close> end with these three dispatches and the result is
  \<^verbatim>\<open>{success: true, method: 'keyboard-events'}\<close> exactly when some dispatch did not
  throw.
\<close>

theorem keyboard_strategy_tries_all_targets:
  "snd (tryKeyboard isNext pg) = keyEvents isNext \<and>
   (fst (tryKeyboard isNext pg) = Some (Success ''keyboard-events'')) =
     (\<not> dispatch_throws pg Document \<or> \<not> dispatch_throws pg Window \<or>
      \<not> dispatch_throws pg ActiveElement) \<and>
   (fst (tryKeyboard isNext pg) = None) =
     (dispatch_throws pg Document \<and> dispatch_throws pg Window \<and> dispatch_throws pg ActiveElement) \<and>
   (noVisibleButton pg (buttonSelectors0 (d = ''next'')) \<and> sessionFails (d = ''next'') pg \<and>
    playersFail (d = ''next'') pg \<longrightarrow>
      snd (skipTrack0 d pg) =
        snd (tryMediaSession (d = ''next'') pg) @ snd (tryPlayers (d = ''next'') pg) @
        keyEvents (d = ''next'') \<and>
      (fst (skipTrack0 d pg) = Success ''keyboard-events'') =
        (\<not> dispatch_throws pg Document \<or> \<not> dispatch_throws pg Window \<or>
         \<not> dispatch_throws pg ActiveElement)) \<and>
   (commonButtonSelectors d = Inr sels \<and> noVisibleButton pg sels \<and>
    sessionFails (d = ''next'') pg \<and> playersFail (d = ''next'') pg \<longrightarrow>
      snd (skipTrack1 d pg) =
        snd (tryMediaSession (d = ''next'') pg) @ snd (tryPlayers (d = ''next'') pg) @
        keyEvents (d = ''next'') \<and>
      (fst (skipTrack1 d pg) = Inr (Success ''keyboard-events'')) =
        (\<not> dispatch_throws pg Document \<or> \<not> dispatch_throws pg Window \<or>
         \<not> dispatch_throws pg ActiveElement))"
proof -
  have k: "tryKeyboard isNext pg =
     (if keyboardFails pg then None else Some (Success ''keyboard-events''), keyEvents isNext)"
    by (rule tryKeyboard_result)
  have a: "snd (tryKeyboard isNext pg) = keyEvents isNext"
    by (simp add: k)
  have b: "(fst (tryKeyboard isNext pg) = Some (Success ''keyboard-events'')) =
     (\<not> dispatch_throws pg Document \<or> \<not> dispatch_throws pg Window \<or>
      \<not> dispatch_throws pg ActiveElement)"
    by (auto simp: k keyboardFails_def)
  have c: "(fst (tryKeyboard isNext pg) = None) =
     (dispatch_throws pg Document \<and> dispatch_throws pg Window \<and> dispatch_throws pg ActiveElement)"
    by (auto simp: k keyboardFails_def)
  have d0: "noVisibleButton pg (buttonSelectors0 (d = ''next'')) \<and> sessionFails (d = ''next'') pg \<and>
    playersFail (d = ''next'') pg \<Longrightarrow>
      snd (skipTrack0 d pg) =
        snd (tryMediaSession (d = ''next'') pg) @ snd (tryPlayers (d = ''next'') pg) @
        keyEvents (d = ''next'') \<and>
      (fst (skipTrack0 d pg) = Success ''keyboard-events'') =
        (\<not> dispatch_throws pg Document \<or> \<not> dispatch_throws pg Window \<or>
         \<not> dispatch_throws pg ActiveElement)"
    by (auto simp: skipTrack0_no_button keyboardFails_def notFound_def)
  have d1: "commonButtonSelectors d = Inr sels \<and> noVisibleButton pg sels \<and>
    sessionFails (d = ''next'') pg \<and> playersFail (d = ''next'') pg \<Longrightarrow>
      snd (skipTrack1 d pg) =
        snd (tryMediaSession (d = ''next'') pg) @ snd (tryPlayers (d = ''next'') pg) @
        keyEvents (d = ''next'') \<and>
      (fst (skipTrack1 d pg) = Inr (Success ''keyboard-events'')) =
        (\<not> dispatch_throws pg Document \<or> \<not> dispatch_throws pg Window \<or>
         \<not> dispatch_throws pg ActiveElement)"
    by (auto simp: skipTrack1_resolve resolve1_no_button keyboardFails_def notFound_def)
  show ?thesis
    using a b c d0 d1 by blast
qed

theorem keyboard_strategy_tries_all_targets_witness:
  "noVisibleButton unfocusedPage (buttonSelectors0 (''prev'' = ''next'')) \<and>
   sessionFails (''prev'' = ''next'') unfocusedPage \<and>
   playersFail (''prev'' = ''next'') unfocusedPage \<and>
   commonButtonSelectors ''prev'' = Inr commonButtonSelectors_prev \<and>
   noVisibleButton unfocusedPage commonButtonSelectors_prev \<and>
   dispatch_throws unfocusedPage Document \<and>
   \<not> dispatch_throws unfocusedPage Window \<and>
   dispatch_throws unfocusedPage ActiveElement \<and>
   skipTrack0 ''prev'' unfocusedPage =
     (Success ''keyboard-events'',
      [SetActionHandler ''previoustrack'', SessionDispatch ''previoustrack'',
       KeyDispatch Document ''MediaTrackPrevious'' 177,
       KeyDispatch Window ''MediaTrackPrevious'' 177,
       KeyDispatch ActiveElement ''MediaTrackPrevious'' 177]) \<and>
   skipTrack1 ''prev'' unfocusedPage =
     (Inr (Success ''keyboard-events''),
      [SetActionHandler ''previoustrack'', SessionDispatch ''previoustrack'',
       KeyDispatch Document ''MediaTrackPrevious'' 177,
       KeyDispatch Window ''MediaTrackPrevious'' 177,
       KeyDispatch ActiveElement ''MediaTrackPrevious'' 177]) \<and>
   tryKeyboard True deafPage = (None, keyEvents True)"
proof -
  have nv: "\<And>sels. noVisibleButton unfocusedPage sels"
    by (simp add: noVisibleButton_def unfocusedPage_fields)
  have sf: "sessionFails (''prev'' = ''next'') unfocusedPage"
    by (simp add: sessionFails_def unfocusedPage_fields)
  have pf: "playersFail (''prev'' = ''next'') unfocusedPage"
    by (simp add: playersFail_def candidatePlayers_def unfocusedPage_fields pushCommonPlayers_none)
  have c: "commonButtonSelectors ''prev'' = Inr commonButtonSelectors_prev"
    by (simp add: commonButtonSelectors_def)
  have ms: "snd (tryMediaSession (''prev'' = ''next'') unfocusedPage) =
      [SetActionHandler ''previoustrack'', SessionDispatch ''previoustrack'']"
    by (simp add: tryMediaSession_def sessionSkip_def unfocusedPage_fields)
  have pl: "snd (tryPlayers (''prev'' = ''next'') unfocusedPage) = []"
    by (simp add: tryPlayers_def unfocusedPage_fields pushCommonPlayers_none)
  have dt: "dispatch_throws unfocusedPage Document" "\<not> dispatch_throws unfocusedPage Window"
    "dispatch_throws unfocusedPage ActiveElement"
    by (simp_all add: unfocusedPage_fields)
  have deaf: "dispatch_throws deafPage = (\<lambda>t. True)"
    by (simp add: deafPage_def)
  have r0: "skipTrack0 ''prev'' unfocusedPage =
      (fst (skipTrack0 ''prev'' unfocusedPage), snd (skipTrack0 ''prev'' unfocusedPage))"
    and r1: "skipTrack1 ''prev'' unfocusedPage =
      (fst (skipTrack1 ''prev'' unfocusedPage), snd (skipTrack1 ''prev'' unfocusedPage))"
    and rk: "tryKeyboard True deafPage =
      (fst (tryKeyboard True deafPage), snd (tryKeyboard True deafPage))"
    by simp_all
  show ?thesis
    using keyboard_strategy_tries_all_targets [of True deafPage]
      keyboard_strategy_tries_all_targets [of _ unfocusedPage "''prev''" commonButtonSelectors_prev]
      nv [of "buttonSelectors0 (''prev'' = ''next'')"] nv [of commonButtonSelectors_prev]
      sf pf c ms pl dt deaf
    by (subst r0, subst r1, subst rk) (simp add: keyEvents_def)
qed

text \<open>
  C9, as the code has it. In the older version every direction other than
  \<^verbatim>\<open>'next'\<close> behaves as the previous direction. In the later version a direction
  other than \<^verbatim>\<open>'next'\<close> that is not a name inherited from \<^verbatim>\<open>Object.prototype\<close>
  takes the previous-direction branch of the media-session, player and keyboard
  strategies, but the button probes use the previous-direction selectors only for the
  exact string \<^verbatim>\<open>'prev'\<close>; for any other such string the selector list is empty, so
  all of them behave alike.
\<close>

theorem direction_other_than_next:
  "(d \<noteq> ''next'' \<longrightarrow> skipTrack0 d pg = skipTrack0 ''previous'' pg) \<and>
   (d \<noteq> ''next'' \<and> d \<notin> set objectPrototypeKeys \<longrightarrow>
      skipTrack1 d pg =
        (Inr (fst (resolve1 False (if d = ''prev'' then commonButtonSelectors_prev else []) pg)),
         snd (resolve1 False (if d = ''prev'' then commonButtonSelectors_prev else []) pg))) \<and>
   (d \<noteq> ''next'' \<and> d \<noteq> ''prev'' \<and> d \<notin> set objectPrototypeKeys \<longrightarrow>
      skipTrack1 d pg = skipTrack1 ''previous'' pg)"
proof -
  have p: "''previous'' \<notin> set objectPrototypeKeys"
    by (simp add: objectPrototypeKeys_def)
  have a: "d \<noteq> ''next'' \<Longrightarrow> skipTrack0 d pg = skipTrack0 ''previous'' pg"
    by (simp add: skipTrack0_def)
  have b: "d \<noteq> ''next'' \<Longrightarrow> d \<notin> set objectPrototypeKeys \<Longrightarrow>
      skipTrack1 d pg =
        (Inr (fst (resolve1 False (if d = ''prev'' then commonButtonSelectors_prev else []) pg)),
         snd (resolve1 False (if d = ''prev'' then commonButtonSelectors_prev else []) pg))"
    by (simp add: skipTrack1_def commonButtonSelectors_def case_prod_beta)
  have c: "d \<noteq> ''next'' \<Longrightarrow> d \<noteq> ''prev'' \<Longrightarrow> d \<notin> set objectPrototypeKeys \<Longrightarrow>
      skipTrack1 d pg = skipTrack1 ''previous'' pg"
    using p by (simp add: skipTrack1_def commonButtonSelectors_def case_prod_beta)
  show ?thesis
    using a b c by blast
qed

theorem direction_other_than_next_witness:
  "''prev'' \<noteq> ''next'' \<and> ''prev'' \<notin> set objectPrototypeKeys \<and>
   skipTrack0 ''prev'' prevPage = skipTrack0 ''previous'' prevPage \<and>
   skipTrack1 ''prev'' prevPage =
     (Inr (fst (resolve1 False commonButtonSelectors_prev prevPage)),
      snd (resolve1 False commonButtonSelectors_prev prevPage)) \<and>
   ''rewind'' \<noteq> ''next'' \<and> ''rewind'' \<noteq> ''prev'' \<and> ''rewind'' \<notin> set objectPrototypeKeys \<and>
   skipTrack1 ''rewind'' prevPage = skipTrack1 ''previous'' prevPage"
proof -
  have p: "''prev'' \<notin> set objectPrototypeKeys" "''rewind'' \<notin> set objectPrototypeKeys"
    by (simp_all add: objectPrototypeKeys_def)
  have q: "''prev'' \<noteq> ''next''" "''rewind'' \<noteq> ''next''" "''rewind'' \<noteq> ''prev''"
    by simp_all
  have t1: "skipTrack0 ''prev'' prevPage = skipTrack0 ''previous'' prevPage"
    using direction_other_than_next [of "''prev''" prevPage] q by blast
  have t2: "skipTrack1 ''prev'' prevPage =
     (Inr (fst (resolve1 False commonButtonSelectors_prev prevPage)),
      snd (resolve1 False commonButtonSelectors_prev prevPage))"
    using direction_other_than_next [of "''prev''" prevPage] p q by simp
  have t3: "skipTrack1 ''rewind'' prevPage = skipTrack1 ''previous'' prevPage"
    using direction_other_than_next [of "''rewind''" prevPage] p q by blast
  show ?thesis
    using t1 t2 t3 p q by blast
qed

text \<open>
  C9 as stated fails in the later version: on a page whose only control is a visible
  \<^verbatim>\<open>.ytp-prev-button\<close>, the direction \<^verbatim>\<open>'prev'\<close> clicks the button, while the
  direction \<^verbatim>\<open>'previous'\<close> probes no button and ends in the keyboard strategy.
\<close>

theorem previous_differs_from_prev:
  "skipTrack1 ''prev'' prevPage = (Inr (Success ''button-click''), [Click (visibleButton 4)]) \<and>
   skipTrack1 ''previous'' prevPage =
     (Inr (Success ''keyboard-events''),
      [KeyDispatch Document ''MediaTrackPrevious'' 177,
       KeyDispatch Window ''MediaTrackPrevious'' 177,
       KeyDispatch ActiveElement ''MediaTrackPrevious'' 177])"
proof -
  have a: "skipTrack1 ''prev'' prevPage = (Inr (Success ''button-click''), [Click (visibleButton 4)])"
    by (simp add: skipTrack1_def commonButtonSelectors_def commonButtonSelectors_prev_def
        resolve1_def prevPage_qsa isVisible_visibleButton)
  have s: "commonButtonSelectors ''previous'' = Inr []"
    by (simp add: commonButtonSelectors_def objectPrototypeKeys_def)
  have b: "skipTrack1 ''previous'' prevPage =
     (Inr (Success ''keyboard-events''),
      [KeyDispatch Document ''MediaTrackPrevious'' 177,
       KeyDispatch Window ''MediaTrackPrevious'' 177,
       KeyDispatch ActiveElement ''MediaTrackPrevious'' 177])"
    by (simp add: skipTrack1_def s resolve1_def tryMediaSession_def tryPlayers_def
        pushCommonPlayers_none prevPage_qsa keyboardOrFail_def tryKeyboard_def Let_def)
  show ?thesis using a b by simp
qed

end
